theory Spec2Isabelle
  imports Main "HOL-Library.Word" "HOL-Library.Monad_Syntax"
begin

unbundle bit_operations_syntax

section \<open>Machine integers of verbs.c\<close>

text \<open>
  The sizes handled by verbs.c are C \<open>int\<close>s (32 bits, two's complement).  They are
  modelled as \<open>int\<close> with the representable range written out: C gives no result to
  a signed operation whose value leaves the range, nor to a left shift of a negative value,
  and the model returns \<open>None\<close> there.  A loop is a \<open>partial_function\<close> in the
  option monad, so \<open>None\<close> also stands for a loop that never returns.
\<close>

definition INT_MAX :: int where
  "INT_MAX = 2147483647"

definition INT_MIN :: int where
  "INT_MIN = - 2147483648"

text \<open>\<open>x <<= 1\<close> on a C \<open>int\<close>.\<close>

definition shl1 :: "int \<Rightarrow> int option" where
  "shl1 x = (if x < 0 \<or> INT_MAX < 2 * x then None else Some (2 * x))"

text \<open>\<open>a + b\<close> on C \<open>int\<close>s.\<close>

definition add_int :: "int \<Rightarrow> int \<Rightarrow> int option" where
  "add_int a b = (if a + b < INT_MIN \<or> INT_MAX < a + b then None else Some (a + b))"

section \<open>Queue-size rounding\<close>

text \<open>
  \<^verbatim>\<open>for (nent = 1; nent <= cqe; nent <<= 1) ;  return nent;\<close>
  The loop of \<open>align_cq_size\<close>, from the current value of \<open>nent\<close>.
\<close>

partial_function (option) align_cq_loop :: "int \<Rightarrow> int \<Rightarrow> int option" where
  "align_cq_loop cqe nent =
     (if nent \<le> cqe then
        (case shl1 nent of None \<Rightarrow> None | Some nent' \<Rightarrow> align_cq_loop cqe nent')
      else Some nent)"

declare align_cq_loop.simps [code]

definition align_cq_size :: "int \<Rightarrow> int option" where
  "align_cq_size cqe = align_cq_loop cqe 1"

text \<open>
  \<^verbatim>\<open>for (ret = 1; ret < size + spare; ret <<= 1) ;  return ret;\<close>
  The loop of \<open>align_queue_size\<close>; \<open>size + spare\<close> is evaluated at every test.
\<close>

partial_function (option) align_queue_loop :: "int \<Rightarrow> int \<Rightarrow> int \<Rightarrow> int option" where
  "align_queue_loop sz spare ret =
     (case add_int sz spare of
        None \<Rightarrow> None
      | Some bound \<Rightarrow>
          if ret < bound then
            (case shl1 ret of None \<Rightarrow> None | Some ret' \<Rightarrow> align_queue_loop sz spare ret')
          else Some ret)"

declare align_queue_loop.simps [code]

text \<open>
  \<open>align_queue_size(context, size, spare)\<close>; the context argument is not used by the
  C function and is left out; \<open>sz\<close> is the C parameter \<open>size\<close>.
\<close>

definition align_queue_size :: "int \<Rightarrow> int \<Rightarrow> int option" where
  "align_queue_size sz spare =
     (if sz = 0 then Some 0 else align_queue_loop sz spare 1)"

text \<open>\<open>r\<close> is the smallest power of two that is at least \<open>n\<close>.\<close>

definition least_pow2_ge :: "int \<Rightarrow> int \<Rightarrow> bool" where
  "least_pow2_ge n r \<longleftrightarrow>
     (\<exists>k::nat. r = 2 ^ k) \<and> n \<le> r \<and> (\<forall>j::nat. n \<le> 2 ^ j \<longrightarrow> r \<le> 2 ^ j)"


section \<open>Data model\<close>

text \<open>
  Pointers are addresses; a pointer that may be \<open>NULL\<close> is an \<open>addr option\<close>.
  Two handles denote the same object exactly when their addresses are equal, which is the
  comparison \<open>send_cq == recv_cq\<close> of the C code.
\<close>

type_synonym addr = nat

text \<open>
  Values that verbs.c takes from headers that are not part of the sources (mlx4.h, wqe.h)
  and from the host: they are parameters of the model.
\<close>

record mlx4_hdr =
  MLX4_CQ_ENTRY_SIZE :: int
  MLX4_STAT_RATE_OFFSET :: "8 word"
  MLX4_WQE_CTRL_CQ_UPDATE :: "32 word"
  host_big_endian :: bool

datatype db_type = MLX4_DB_TYPE_CQ | MLX4_DB_TYPE_RQ

datatype lock_id = CqLock addr | SqLock addr | RqLock addr

text \<open>\<open>enum ibv_qp_state\<close> and the mask bit \<open>IBV_QP_STATE = 1 << 0\<close> of the verbs API.\<close>

datatype ibv_qp_state =
  IBV_QPS_RESET | IBV_QPS_INIT | IBV_QPS_RTR | IBV_QPS_RTS | IBV_QPS_SQD | IBV_QPS_SQE | IBV_QPS_ERR

definition IBV_QP_STATE :: "32 word" where
  "IBV_QP_STATE = 1"

datatype ibv_qp_type = IBV_QPT_RC | IBV_QPT_UC | IBV_QPT_UD

text \<open>The one field of \<open>struct ibv_qp_attr\<close> that verbs.c reads.\<close>

record ibv_qp_attr =
  qp_state :: ibv_qp_state

record ibv_qp_cap =
  max_send_wr :: "32 word"
  max_recv_wr :: "32 word"
  max_send_sge :: "32 word"
  max_recv_sge :: "32 word"
  max_inline_data :: "32 word"

record ibv_qp_init_attr =
  attr_send_cq :: addr
  attr_recv_cq :: addr
  attr_srq :: "addr option"
  cap :: ibv_qp_cap
  qp_type :: ibv_qp_type
  sq_sig_all :: int

record ibv_global_route =
  dgid :: "128 word"
  flow_label :: "32 word"
  sgid_index :: "8 word"
  hop_limit :: "8 word"
  traffic_class :: "8 word"

record ibv_ah_attr =
  grh :: ibv_global_route
  dlid :: "16 word"
  sl :: "8 word"
  src_path_bits :: "8 word"
  static_rate :: "8 word"
  is_global :: "8 word"
  port_num :: "8 word"

record mlx4_pd =
  pdn :: "32 word"

text \<open>\<open>struct mlx4_av\<close>, the hardware address vector held by \<open>struct mlx4_ah\<close>.\<close>

record mlx4_av =
  port_pd :: "32 word"
  g_slid :: "8 word"
  av_dlid :: "16 word"
  stat_rate :: "8 word"
  gid_index :: "8 word"
  av_hop_limit :: "8 word"
  sl_tclass_flowlabel :: "32 word"
  av_dgid :: "128 word"

record mlx4_cq =
  cq_buf :: addr
  cons_index :: "32 word"
  set_ci_db :: addr
  arm_db :: addr
  arm_sn :: int
  cqn :: "32 word"

text \<open>
  \<open>struct mlx4_wq\<close>, one side of a queue pair: \<open>wq_max\<close> is the C field \<open>max\<close>,
  \<open>head\<close> and \<open>tail\<close> are the producer and consumer indices.
\<close>

record mlx4_wq =
  wrid :: "addr option"
  wq_max :: int
  max_gs :: int
  wqe_shift :: int
  head :: "32 word"
  tail :: "32 word"

text \<open>\<open>struct mlx4_qp\<close> with the fields of its embedded \<open>struct ibv_qp\<close>.\<close>

record mlx4_qp =
  qp_num :: "32 word"
  send_cq :: addr
  recv_cq :: addr
  srq :: "addr option"
  qp_buf :: addr
  db :: addr
  sq :: mlx4_wq
  rq :: mlx4_wq
  doorbell_qpn :: "32 word"
  sq_signal_bits :: "32 word"

text \<open>
  Every call that leaves verbs.c (C library, buffer and doorbell allocators, resource
  table, completion-queue cleaning, kernel commands) is recorded, in program order.
\<close>

datatype event =
    Malloc "addr option"
  | Free addr
  | SpinInit lock_id
  | SpinLock lock_id
  | SpinUnlock lock_id
  | AllocBuf int int
  | Memset addr int
  | FreeBuf addr
  | AllocDb db_type
  | FreeDb addr
  | AllocQpBuf ibv_qp_cap ibv_qp_type int int
  | CqClean addr "32 word" "addr option"
  | StoreQp "32 word" addr
  | ClearQp "32 word"
  | CmdCreateCq int addr addr
  | CmdCreateQp addr addr "8 word" "8 word"
  | CmdModifyQp addr ibv_qp_attr "32 word"
  | CmdDestroyQp addr

text \<open>
  The context: the Resource Table (queue-pair number to queue-pair object), the live
  objects, the doorbell records, the device page size, and the calls made so far.
\<close>

record world =
  qp_table :: "32 word \<rightharpoonup> addr"
  cqs :: "addr \<rightharpoonup> mlx4_cq"
  qps :: "addr \<rightharpoonup> mlx4_qp"
  ahs :: "addr \<rightharpoonup> mlx4_av"
  dbrec :: "addr \<rightharpoonup> 32 word"
  page_size :: int
  trace :: "event list"

definition emit :: "event \<Rightarrow> world \<Rightarrow> world" where
  "emit e w = w\<lparr>trace := trace w @ [e]\<rparr>"


section \<open>Collaborators outside verbs.c\<close>

text \<open>
  \<open>malloc\<close>, \<open>free\<close> and the spin locks of the C library.  What \<open>malloc\<close> returns is
  decided by the environment and passed in; releasing an object removes it from the
  live objects.  \<open>free(NULL)\<close> does nothing.
\<close>

definition malloc :: "addr option \<Rightarrow> world \<Rightarrow> addr option \<times> world" where
  "malloc ret w = (ret, emit (Malloc ret) w)"

definition free :: "addr \<Rightarrow> world \<Rightarrow> world" where
  "free p w =
     emit (Free p) (w\<lparr>cqs := (cqs w)(p := None), qps := (qps w)(p := None),
                       ahs := (ahs w)(p := None)\<rparr>)"

definition free_opt :: "addr option \<Rightarrow> world \<Rightarrow> world" where
  "free_opt p w = (case p of None \<Rightarrow> w | Some a \<Rightarrow> free a w)"

definition pthread_spin_init :: "int \<Rightarrow> lock_id \<Rightarrow> world \<Rightarrow> int \<times> world" where
  "pthread_spin_init ret l w = (ret, emit (SpinInit l) w)"

definition pthread_spin_lock :: "lock_id \<Rightarrow> world \<Rightarrow> world" where
  "pthread_spin_lock l w = emit (SpinLock l) w"

definition pthread_spin_unlock :: "lock_id \<Rightarrow> world \<Rightarrow> world" where
  "pthread_spin_unlock l w = emit (SpinUnlock l) w"

text \<open>
  \<open>htonl\<close> and \<open>htons\<close>: the identity on a big-endian host, a byte swap otherwise.
\<close>

definition bswap32 :: "32 word \<Rightarrow> 32 word" where
  "bswap32 x =
     push_bit 24 (x AND 0xff) OR push_bit 8 (x AND 0xff00)
       OR (drop_bit 8 x AND 0xff00) OR (drop_bit 24 x AND 0xff)"

definition bswap16 :: "16 word \<Rightarrow> 16 word" where
  "bswap16 x = push_bit 8 (x AND 0xff) OR (drop_bit 8 x AND 0xff)"

definition htonl :: "mlx4_hdr \<Rightarrow> 32 word \<Rightarrow> 32 word" where
  "htonl H x = (if host_big_endian H then x else bswap32 x)"

definition htons :: "mlx4_hdr \<Rightarrow> 16 word \<Rightarrow> 16 word" where
  "htons H x = (if host_big_endian H then x else bswap16 x)"

text \<open>
  Modelled from the spec: the Buffer Allocator (\<open>mlx4_alloc_buf\<close>, \<open>mlx4_free_buf\<close>) is
  not among the sources.  Spec 4.3: allocate(size, alignment) returns page-aligned memory
  or a failure, and no partial buffer is handed back; free(buffer) releases it.  The
  outcome of an allocation (the buffer, or \<open>None\<close> for a nonzero return) is passed in.
\<close>

definition mlx4_alloc_buf :: "addr option \<Rightarrow> int \<Rightarrow> int \<Rightarrow> world \<Rightarrow> addr option \<times> world" where
  "mlx4_alloc_buf ret sz pgsz w = (ret, emit (AllocBuf sz pgsz) w)"

definition mlx4_free_buf :: "addr \<Rightarrow> world \<Rightarrow> world" where
  "mlx4_free_buf b w = emit (FreeBuf b) w"

text \<open>
  Modelled from the spec: the Doorbell Allocator (\<open>mlx4_alloc_db\<close>, \<open>mlx4_free_db\<close>) is
  not among the sources.  Spec 4.2: allocate(kind) returns a free slot, release(slot)
  returns it to the freelist.  The slot returned (\<open>None\<close> for \<open>NULL\<close>) is passed in.
\<close>

definition mlx4_alloc_db :: "addr option \<Rightarrow> db_type \<Rightarrow> world \<Rightarrow> addr option \<times> world" where
  "mlx4_alloc_db ret t w = (ret, emit (AllocDb t) w)"

definition mlx4_free_db :: "addr \<Rightarrow> world \<Rightarrow> world" where
  "mlx4_free_db d w = emit (FreeDb d) (w\<lparr>dbrec := (dbrec w)(d := None)\<rparr>)"

text \<open>
  Modelled from the spec: the Resource Table (\<open>mlx4_store_qp\<close>, \<open>mlx4_clear_qp\<close>,
  \<open>mlx4_find_qp\<close>) is not among the sources.  Spec 4.1: store(id, obj) inserts, growing
  backing storage as needed; find(id) returns a reference; clear(id) removes an entry.
  Spec 4.5 and \<open>mlx4_create_qp\<close> provide for a registration that fails (nonzero return);
  whether it does is passed in, and a failed store leaves the table as it was.
\<close>

definition mlx4_store_qp :: "int \<Rightarrow> 32 word \<Rightarrow> addr \<Rightarrow> world \<Rightarrow> int \<times> world" where
  "mlx4_store_qp ret qpn qp w =
     (let w' = emit (StoreQp qpn qp) w in
      if ret = 0 then (0, w'\<lparr>qp_table := (qp_table w')(qpn \<mapsto> qp)\<rparr>) else (ret, w'))"

definition mlx4_clear_qp :: "32 word \<Rightarrow> world \<Rightarrow> world" where
  "mlx4_clear_qp qpn w = (let w' = emit (ClearQp qpn) w in w'\<lparr>qp_table := (qp_table w')(qpn := None)\<rparr>)"

definition mlx4_find_qp :: "world \<Rightarrow> 32 word \<Rightarrow> addr option" where
  "mlx4_find_qp w qpn = qp_table w qpn"

text \<open>
  Modelled from the spec: \<open>mlx4_cq_clean\<close> is not among the sources.  Spec 4.4:
  clean(queuePairNumber, optionalSrq) invalidates the completion entries tagged with the
  queue-pair number.  The completion ring is outside this model, so the call is recorded
  with its arguments.
\<close>

definition mlx4_cq_clean :: "addr \<Rightarrow> 32 word \<Rightarrow> addr option \<Rightarrow> world \<Rightarrow> world" where
  "mlx4_cq_clean cq qpn srq_opt w = emit (CqClean cq qpn srq_opt) w"

text \<open>
  Modelled from the spec: \<open>mlx4_init_qp_indices\<close> is not among the sources.  Spec 4.5:
  it reinitializes the local producer/consumer indices on both send and receive sides to
  zero.
\<close>

definition mlx4_init_qp_indices :: "mlx4_qp \<Rightarrow> mlx4_qp" where
  "mlx4_init_qp_indices q =
     q\<lparr>sq := (sq q)\<lparr>head := 0, tail := 0\<rparr>, rq := (rq q)\<lparr>head := 0, tail := 0\<rparr>\<rparr>"


section \<open>Completion queues\<close>

text \<open>\<open>a * b\<close> on C \<open>int\<close>s.\<close>

definition mul_int :: "int \<Rightarrow> int \<Rightarrow> int option" where
  "mul_int a b = (if a * b < INT_MIN \<or> INT_MAX < a * b then None else Some (a * b))"

text \<open>
  What the environment answers during one \<open>mlx4_create_cq\<close>: the results of
  \<open>malloc\<close>, \<open>pthread_spin_init\<close>, \<open>mlx4_alloc_buf\<close>, \<open>mlx4_alloc_db\<close>, and the return
  code and \<open>resp.cqn\<close> of \<open>ibv_cmd_create_cq\<close>.
\<close>

record create_cq_env =
  cq_malloc_ret :: "addr option"
  cq_spin_init_ret :: int
  cq_alloc_buf_ret :: "addr option"
  cq_alloc_db_ret :: "addr option"
  create_cq_cmd_ret :: int
  resp_cqn :: "32 word"

text \<open>
  \<open>mlx4_create_cq(context, cqe, channel, comp_vector)\<close>.  The completion channel and
  vector are handed to the kernel untouched and are left out.  The result is the handle
  (\<open>None\<close> for \<open>NULL\<close>) and the new state; the labels \<open>err_db\<close>, \<open>err_buf\<close>, \<open>err\<close>
  are written out at each \<open>goto\<close>.
\<close>

definition mlx4_create_cq ::
  "mlx4_hdr \<Rightarrow> create_cq_env \<Rightarrow> int \<Rightarrow> world \<Rightarrow> (addr option \<times> world) option" where
  "mlx4_create_cq H E cqe w =
     (if cqe > 0x3fffff then Some (None, w)
      else
        case malloc (cq_malloc_ret E) w of
          (None, w1) \<Rightarrow> Some (None, w1)
        | (Some cq, w1) \<Rightarrow>
            (case pthread_spin_init (cq_spin_init_ret E) (CqLock cq) w1 of
               (r, w2) \<Rightarrow>
                 if r \<noteq> 0 then Some (None, free cq w2)
                 else do {
                   nent \<leftarrow> align_cq_size cqe;
                   sz \<leftarrow> mul_int nent (MLX4_CQ_ENTRY_SIZE H);
                   (case mlx4_alloc_buf (cq_alloc_buf_ret E) sz (page_size w2) w2 of
                      (None, w3) \<Rightarrow> Some (None, free cq w3)
                    | (Some buf, w3) \<Rightarrow>
                        let w4 = emit (Memset buf sz) w3 in
                        (case mlx4_alloc_db (cq_alloc_db_ret E) MLX4_DB_TYPE_CQ w4 of
                           (None, w5) \<Rightarrow> Some (None, free cq (mlx4_free_buf buf w5))
                         | (Some d, w5) \<Rightarrow>
                             let w6 = w5\<lparr>dbrec := (dbrec w5)(d + 1 \<mapsto> 0, d \<mapsto> 0)\<rparr>;
                                 w7 = emit (CmdCreateCq (nent - 1) buf d) w6
                             in
                               if create_cq_cmd_ret E \<noteq> 0 then
                                 Some (None, free cq (mlx4_free_buf buf (mlx4_free_db d w7)))
                               else
                                 Some (Some cq,
                                   w7\<lparr>cqs := (cqs w7)(cq \<mapsto>
                                     \<lparr>cq_buf = buf, cons_index = 0, set_ci_db = d,
                                      arm_db = d + 1, arm_sn = 1, cqn = resp_cqn E\<rparr>)\<rparr>)))
                 }))"

section \<open>Queue pairs\<close>

text \<open>
  \<open>mlx4_lock_cqs(qp)\<close> and \<open>mlx4_unlock_cqs(qp)\<close>.  A handle that denotes no live
  object has no defined behaviour (\<open>None\<close>).
\<close>

definition mlx4_lock_cqs :: "addr \<Rightarrow> world \<Rightarrow> world option" where
  "mlx4_lock_cqs qp w = do {
     q \<leftarrow> qps w qp;
     s \<leftarrow> cqs w (send_cq q);
     r \<leftarrow> cqs w (recv_cq q);
     Some (if send_cq q = recv_cq q then pthread_spin_lock (CqLock (send_cq q)) w
           else if cqn s < cqn r then
             pthread_spin_lock (CqLock (recv_cq q)) (pthread_spin_lock (CqLock (send_cq q)) w)
           else
             pthread_spin_lock (CqLock (send_cq q)) (pthread_spin_lock (CqLock (recv_cq q)) w))
   }"

definition mlx4_unlock_cqs :: "addr \<Rightarrow> world \<Rightarrow> world option" where
  "mlx4_unlock_cqs qp w = do {
     q \<leftarrow> qps w qp;
     s \<leftarrow> cqs w (send_cq q);
     r \<leftarrow> cqs w (recv_cq q);
     Some (if send_cq q = recv_cq q then pthread_spin_unlock (CqLock (send_cq q)) w
           else if cqn s < cqn r then
             pthread_spin_unlock (CqLock (send_cq q)) (pthread_spin_unlock (CqLock (recv_cq q)) w)
           else
             pthread_spin_unlock (CqLock (recv_cq q)) (pthread_spin_unlock (CqLock (send_cq q)) w))
   }"

text \<open>
  \<open>mlx4_modify_qp(qp, attr, attr_mask)\<close>; \<open>cmd_ret\<close> is what \<open>ibv_cmd_modify_qp\<close>
  returns.
\<close>

definition mlx4_modify_qp ::
  "int \<Rightarrow> addr \<Rightarrow> ibv_qp_attr \<Rightarrow> 32 word \<Rightarrow> world \<Rightarrow> (int \<times> world) option" where
  "mlx4_modify_qp cmd_ret qp attr attr_mask w = do {
     q \<leftarrow> qps w qp;
     let w1 = emit (CmdModifyQp qp attr attr_mask) w;
     if cmd_ret = 0 \<and> attr_mask AND IBV_QP_STATE \<noteq> 0 \<and> qp_state attr = IBV_QPS_RESET then
       let w2 = mlx4_cq_clean (recv_cq q) (qp_num q) (srq q) w1;
           w3 = (if send_cq q \<noteq> recv_cq q then mlx4_cq_clean (send_cq q) (qp_num q) None w2
                 else w2)
       in Some (cmd_ret, w3\<lparr>qps := (qps w3)(qp \<mapsto> mlx4_init_qp_indices q)\<rparr>)
     else Some (cmd_ret, w1)
   }"

text \<open>
  What the environment answers during one \<open>mlx4_destroy_qp\<close>: the return code of
  \<open>ibv_cmd_destroy_qp\<close> and, on the failure path, that of \<open>mlx4_store_qp\<close> (which the
  C code does not look at).
\<close>

record destroy_qp_env =
  destroy_cmd_ret :: int
  restore_ret :: int

definition mlx4_destroy_qp :: "destroy_qp_env \<Rightarrow> addr \<Rightarrow> world \<Rightarrow> (int \<times> world) option" where
  "mlx4_destroy_qp E ibqp w = do {
     q \<leftarrow> qps w ibqp;
     let w1 = mlx4_cq_clean (recv_cq q) (qp_num q) (srq q) w;
     let w2 = (if send_cq q \<noteq> recv_cq q then mlx4_cq_clean (send_cq q) (qp_num q) None w1
               else w1);
     w3 \<leftarrow> mlx4_lock_cqs ibqp w2;
     let w4 = mlx4_clear_qp (qp_num q) w3;
     w5 \<leftarrow> mlx4_unlock_cqs ibqp w4;
     let w6 = emit (CmdDestroyQp ibqp) w5;
     if destroy_cmd_ret E \<noteq> 0 then do {
       w7 \<leftarrow> mlx4_lock_cqs ibqp w6;
       let w8 = snd (mlx4_store_qp (restore_ret E) (qp_num q) ibqp w7);
       w9 \<leftarrow> mlx4_unlock_cqs ibqp w8;
       Some (destroy_cmd_ret E, w9)
     } else
       Some (0, free ibqp (mlx4_free_buf (qp_buf q)
                  (free_opt (wrid (rq q)) (free_opt (wrid (sq q)) (mlx4_free_db (db q) w6)))))
   }"


text \<open>
  Modelled from the spec: \<open>mlx4_alloc_qp_buf\<close> is not among the sources.  Spec 4.5:
  create allocates the combined buffer.  The error path of \<open>mlx4_create_qp\<close> releases
  \<open>sq.wrid\<close>, \<open>rq.wrid\<close> and \<open>buf\<close>, and the kernel command reads \<open>sq.wqe_shift\<close>:
  these are the fields a successful call sets, to values passed in (\<open>None\<close> is a nonzero
  return).  The call is recorded with the capabilities, the type and the two depths it
  finds in the object.
\<close>

record qp_buf_layout =
  lay_buf :: addr
  lay_sq_wrid :: "addr option"
  lay_rq_wrid :: "addr option"
  lay_sq_wqe_shift :: int
  lay_rq_wqe_shift :: int

definition mlx4_alloc_qp_buf ::
  "qp_buf_layout option \<Rightarrow> ibv_qp_cap \<Rightarrow> ibv_qp_type \<Rightarrow> mlx4_qp \<Rightarrow> world
     \<Rightarrow> mlx4_qp option \<times> world" where
  "mlx4_alloc_qp_buf ret c t q w =
     (let w' = emit (AllocQpBuf c t (wq_max (sq q)) (wq_max (rq q))) w in
      case ret of
        None \<Rightarrow> (None, w')
      | Some l \<Rightarrow>
          (Some (q\<lparr>qp_buf := lay_buf l,
                   sq := (sq q)\<lparr>wrid := lay_sq_wrid l, wqe_shift := lay_sq_wqe_shift l\<rparr>,
                   rq := (rq q)\<lparr>wrid := lay_rq_wrid l, wqe_shift := lay_rq_wqe_shift l\<rparr>\<rparr>),
           w'))"

text \<open>
  \<^verbatim>\<open>for (cmd.log_sq_bb_count = 0; qp->sq.max > 1 << cmd.log_sq_bb_count; ++cmd.log_sq_bb_count) ;\<close>
  The shift \<open>1 << k\<close> has a value up to \<open>k = 30\<close>.
\<close>

function log_sq_bb_count_loop :: "int \<Rightarrow> nat \<Rightarrow> nat option" where
  "log_sq_bb_count_loop m k =
     (if 31 \<le> k then None
      else if m > 2 ^ k then log_sq_bb_count_loop m (Suc k)
      else Some k)"
  by pat_completeness auto
termination
  by (relation "measure (\<lambda>(m, k). 31 - k)") auto

declare log_sq_bb_count_loop.simps [simp del]

text \<open>
  What the environment answers during one \<open>mlx4_create_qp\<close>.  \<open>fresh_qp\<close> is the content
  of the memory \<open>malloc\<close> returns; \<open>resp_qpn\<close> and \<open>resp_cap\<close> are the queue-pair number
  and the capabilities that \<open>ibv_cmd_create_qp\<close> writes to the object and to
  \<open>attr->cap\<close>; \<open>set_sq_sizes\<close> is the effect of \<open>mlx4_set_sq_sizes\<close> (not among the
  sources) on the object.  The capabilities reported back to the caller are not part of
  the result.
\<close>

record create_qp_env =
  qp_malloc_ret :: "addr option"
  fresh_qp :: mlx4_qp
  qp_alloc_buf_ret :: "qp_buf_layout option"
  sq_spin_init_ret :: int
  rq_spin_init_ret :: int
  qp_alloc_db_ret :: "addr option"
  create_qp_cmd_ret :: int
  resp_qpn :: "32 word"
  resp_cap :: ibv_qp_cap
  store_ret :: int
  set_sq_sizes :: "mlx4_qp \<Rightarrow> ibv_qp_cap \<Rightarrow> ibv_qp_type \<Rightarrow> mlx4_qp"

text \<open>The labels \<open>err_free\<close>, \<open>err_rq_db\<close> and \<open>err_destroy\<close>, each falling through to \<open>err\<close>.\<close>

definition err_free :: "mlx4_qp \<Rightarrow> addr \<Rightarrow> world \<Rightarrow> world" where
  "err_free q qp w =
     free qp (mlx4_free_buf (qp_buf q) (free_opt (wrid (rq q)) (free_opt (wrid (sq q)) w)))"

definition err_rq_db :: "mlx4_qp \<Rightarrow> addr \<Rightarrow> world \<Rightarrow> world" where
  "err_rq_db q qp w = err_free q qp (mlx4_free_db (db q) w)"

definition err_destroy :: "mlx4_qp \<Rightarrow> addr \<Rightarrow> world \<Rightarrow> world" where
  "err_destroy q qp w = err_rq_db q qp (emit (CmdDestroyQp qp) w)"

text \<open>
  \<open>mlx4_create_qp(pd, attr)\<close>.  The capability fields are \<open>uint32_t\<close> and are compared
  as such; \<open>align_queue_size\<close> receives them converted to \<open>int\<close>.
\<close>

definition mlx4_create_qp ::
  "mlx4_hdr \<Rightarrow> create_qp_env \<Rightarrow> mlx4_pd \<Rightarrow> ibv_qp_init_attr \<Rightarrow> world
     \<Rightarrow> (addr option \<times> world) option" where
  "mlx4_create_qp H E pd attr w =
     (if max_send_wr (cap attr) > 65536 \<or>
         max_recv_wr (cap attr) > 65536 \<or>
         max_send_sge (cap attr) > 64 \<or>
         max_recv_sge (cap attr) > 64 \<or>
         max_inline_data (cap attr) > 1024
      then Some (None, w)
      else
        case malloc (qp_malloc_ret E) w of
          (None, w1) \<Rightarrow> Some (None, w1)
        | (Some qp, w1) \<Rightarrow> do {
            sq_max \<leftarrow> align_queue_size (sint (max_send_wr (cap attr))) 0;
            rq_max \<leftarrow> align_queue_size (sint (max_recv_wr (cap attr))) 0;
            let q0 = (fresh_qp E)\<lparr>sq := (sq (fresh_qp E))\<lparr>wq_max := sq_max\<rparr>,
                                  rq := (rq (fresh_qp E))\<lparr>wq_max := rq_max\<rparr>\<rparr>;
            (case mlx4_alloc_qp_buf (qp_alloc_buf_ret E) (cap attr) (qp_type attr) q0 w1 of
               (None, w2) \<Rightarrow> Some (None, free qp w2)
             | (Some q1, w2) \<Rightarrow>
                 let q2 = mlx4_init_qp_indices q1;
                     (r1, w3) = pthread_spin_init (sq_spin_init_ret E) (SqLock qp) w2;
                     (r2, w4) = (if r1 \<noteq> 0 then (r1, w3)
                                 else pthread_spin_init (rq_spin_init_ret E) (RqLock qp) w3)
                 in
                   if r2 \<noteq> 0 then Some (None, err_free q2 qp w4)
                   else
                     (case mlx4_alloc_db (qp_alloc_db_ret E) MLX4_DB_TYPE_RQ w4 of
                        (None, w5) \<Rightarrow> Some (None, err_free q2 qp w5)
                      | (Some d, w5) \<Rightarrow> do {
                          let q3 = q2\<lparr>db := d\<rparr>;
                          let w6 = w5\<lparr>dbrec := (dbrec w5)(d \<mapsto> 0)\<rparr>;
                          bb \<leftarrow> log_sq_bb_count_loop (wq_max (sq q3)) 0;
                          let w7 = emit (CmdCreateQp (qp_buf q3) d
                                           (word_of_int (wqe_shift (sq q3))) (of_nat bb)) w6;
                          (if create_qp_cmd_ret E \<noteq> 0 then Some (None, err_rq_db q3 qp w7)
                          else
                            let q4 = q3\<lparr>qp_num := resp_qpn E\<rparr>;
                                (r3, w8) = mlx4_store_qp (store_ret E) (qp_num q4) qp w7
                            in
                              if r3 \<noteq> 0 then Some (None, err_destroy q4 qp w8)
                              else
                                let q5 = q4\<lparr>rq := (rq q4)\<lparr>wq_max := sint (max_recv_wr (resp_cap E)),
                                                            max_gs := sint (max_recv_sge (resp_cap E))\<rparr>\<rparr>;
                                    q6 = set_sq_sizes E q5 (resp_cap E) (qp_type attr);
                                    q7 = q6\<lparr>doorbell_qpn := htonl H (push_bit 8 (qp_num q6))\<rparr>;
                                    q8 = (if sq_sig_all attr \<noteq> 0
                                          then q7\<lparr>sq_signal_bits := htonl H (MLX4_WQE_CTRL_CQ_UPDATE H)\<rparr>
                                          else q7\<lparr>sq_signal_bits := 0\<rparr>)
                                in Some (Some qp, w8\<lparr>qps := (qps w8)(qp \<mapsto> q8)\<rparr>))
                        }))
          })"

section \<open>Address descriptors\<close>

text \<open>
  \<open>mlx4_create_ah(pd, attr)\<close>; \<open>malloc_ret\<close> is what \<open>malloc\<close> returns.  The
  \<open>memset\<close> gives the all-zero vector; the shifts of the promoted \<open>uint8_t\<close> fields are
  taken on 32-bit words.
\<close>

definition mlx4_create_ah ::
  "mlx4_hdr \<Rightarrow> addr option \<Rightarrow> mlx4_pd \<Rightarrow> ibv_ah_attr \<Rightarrow> world \<Rightarrow> addr option \<times> world" where
  "mlx4_create_ah H malloc_ret pd attr w =
     (case malloc malloc_ret w of
        (None, w1) \<Rightarrow> (None, w1)
      | (Some ah, w1) \<Rightarrow>
          let av0 = \<lparr>port_pd = 0, g_slid = 0, av_dlid = 0, stat_rate = 0, gid_index = 0,
                     av_hop_limit = 0, sl_tclass_flowlabel = 0, av_dgid = 0\<rparr>;
              av1 = av0\<lparr>port_pd := htonl H (pdn pd OR push_bit 24 (ucast (port_num attr))),
                        g_slid := src_path_bits attr,
                        av_dlid := htons H (dlid attr)\<rparr>;
              av2 = (if static_rate attr \<noteq> 0
                     then av1\<lparr>stat_rate := static_rate attr + MLX4_STAT_RATE_OFFSET H\<rparr>
                     else av1);
              av3 = av2\<lparr>sl_tclass_flowlabel := htonl H (push_bit 28 (ucast (sl attr)))\<rparr>;
              av4 = (if is_global attr \<noteq> 0
                     then av3\<lparr>g_slid := g_slid av3 OR 0x80,
                              gid_index := sgid_index (grh attr),
                              av_hop_limit := hop_limit (grh attr),
                              sl_tclass_flowlabel := sl_tclass_flowlabel av3 OR
                                htonl H (push_bit 20 (ucast (traffic_class (grh attr)))
                                         OR flow_label (grh attr)),
                              av_dgid := dgid (grh attr)\<rparr>
                     else av3)
          in (Some ah, w1\<lparr>ahs := (ahs w1)(ah \<mapsto> av4)\<rparr>))"

definition mlx4_destroy_ah :: "addr \<Rightarrow> world \<Rightarrow> int \<times> world" where
  "mlx4_destroy_ah ah w = (0, free ah w)"


section \<open>Derived notions used in the statements\<close>

text \<open>
  The locks \<open>mlx4_lock_cqs\<close> takes for a queue pair \<open>q\<close> whose send and receive
  completion queues are the objects \<open>s\<close> and \<open>r\<close>, in the order it takes them.
\<close>

definition lock_list :: "mlx4_qp \<Rightarrow> mlx4_cq \<Rightarrow> mlx4_cq \<Rightarrow> lock_id list" where
  "lock_list q s r =
     (if send_cq q = recv_cq q then [CqLock (send_cq q)]
      else if cqn s < cqn r then [CqLock (send_cq q), CqLock (recv_cq q)]
      else [CqLock (recv_cq q), CqLock (send_cq q)])"

text \<open>The calls by which \<open>mlx4_destroy_qp\<close> and \<open>mlx4_modify_qp\<close> clean the completion queues.\<close>

definition clean_events :: "mlx4_qp \<Rightarrow> event list" where
  "clean_events q =
     CqClean (recv_cq q) (qp_num q) (srq q) #
     (if send_cq q \<noteq> recv_cq q then [CqClean (send_cq q) (qp_num q) None] else [])"

definition free_events :: "addr option \<Rightarrow> event list" where
  "free_events p = (case p of None \<Rightarrow> [] | Some a \<Rightarrow> [Free a])"

text \<open>Events that release memory, a buffer or a doorbell.\<close>

fun is_release :: "event \<Rightarrow> bool" where
  "is_release (Free a) = True"
| "is_release (FreeBuf b) = True"
| "is_release (FreeDb d) = True"
| "is_release e = False"

section \<open>A concrete context\<close>

text \<open>
  Two completion queues (identifiers 7 and 9), a queue pair 0x41 that sends on the second
  and receives on the first, and a queue pair 0x42 that uses the first for both and has a
  shared receive queue.
\<close>

definition hdr0 :: mlx4_hdr where
  "hdr0 = \<lparr>MLX4_CQ_ENTRY_SIZE = 32, MLX4_STAT_RATE_OFFSET = 5,
           MLX4_WQE_CTRL_CQ_UPDATE = 12, host_big_endian = False\<rparr>"

definition cq_a :: mlx4_cq where
  "cq_a = \<lparr>cq_buf = 4096, cons_index = 0, set_ci_db = 64, arm_db = 65, arm_sn = 1, cqn = 7\<rparr>"

definition cq_b :: mlx4_cq where
  "cq_b = \<lparr>cq_buf = 8192, cons_index = 0, set_ci_db = 66, arm_db = 67, arm_sn = 1, cqn = 9\<rparr>"

definition qp_x :: mlx4_qp where
  "qp_x = \<lparr>qp_num = 0x41, send_cq = 200, recv_cq = 100, srq = None, qp_buf = 12288, db = 72,
           sq = \<lparr>wrid = Some 300, wq_max = 16, max_gs = 4, wqe_shift = 6, head = 5, tail = 3\<rparr>,
           rq = \<lparr>wrid = Some 301, wq_max = 8, max_gs = 2, wqe_shift = 4, head = 2, tail = 1\<rparr>,
           doorbell_qpn = 0x410000, sq_signal_bits = 0\<rparr>"

definition qp_y :: mlx4_qp where
  "qp_y = \<lparr>qp_num = 0x42, send_cq = 100, recv_cq = 100, srq = Some 700, qp_buf = 16384, db = 74,
           sq = \<lparr>wrid = Some 302, wq_max = 4, max_gs = 1, wqe_shift = 6, head = 1, tail = 1\<rparr>,
           rq = \<lparr>wrid = None, wq_max = 0, max_gs = 0, wqe_shift = 4, head = 0, tail = 0\<rparr>,
           doorbell_qpn = 0x420000, sq_signal_bits = 0\<rparr>"

definition world0 :: world where
  "world0 = \<lparr>qp_table = [0x41 \<mapsto> 500, 0x42 \<mapsto> 600],
             cqs = [100 \<mapsto> cq_a, 200 \<mapsto> cq_b],
             qps = [500 \<mapsto> qp_x, 600 \<mapsto> qp_y],
             ahs = Map.empty,
             dbrec = [64 \<mapsto> 0, 65 \<mapsto> 0, 66 \<mapsto> 0, 67 \<mapsto> 0, 72 \<mapsto> 0, 74 \<mapsto> 0],
             page_size = 4096,
             trace = []\<rparr>"

definition cq_env0 :: create_cq_env where
  "cq_env0 = \<lparr>cq_malloc_ret = Some 900, cq_spin_init_ret = 0, cq_alloc_buf_ret = Some 20480,
              cq_alloc_db_ret = Some 80, create_cq_cmd_ret = 0, resp_cqn = 11\<rparr>"

definition cap0 :: ibv_qp_cap where
  "cap0 = \<lparr>max_send_wr = 65536, max_recv_wr = 65536, max_send_sge = 64, max_recv_sge = 64,
           max_inline_data = 1024\<rparr>"

definition qp_env0 :: create_qp_env where
  "qp_env0 = \<lparr>qp_malloc_ret = Some 1000, fresh_qp = qp_y,
              qp_alloc_buf_ret = Some \<lparr>lay_buf = 24576, lay_sq_wrid = Some 1100,
                lay_rq_wrid = Some 1101, lay_sq_wqe_shift = 6, lay_rq_wqe_shift = 4\<rparr>,
              sq_spin_init_ret = 0, rq_spin_init_ret = 0, qp_alloc_db_ret = Some 82,
              create_qp_cmd_ret = 0, resp_qpn = 0x43, resp_cap = cap0, store_ret = 0,
              set_sq_sizes = (\<lambda>q c t. q\<lparr>sq := (sq q)\<lparr>max_gs := sint (max_send_sge c)\<rparr>\<rparr>)\<rparr>"

definition pd0 :: mlx4_pd where
  "pd0 = \<lparr>pdn = 3\<rparr>"

definition ah_attr0 :: ibv_ah_attr where
  "ah_attr0 = \<lparr>grh = \<lparr>dgid = 0xfe80000000000000000000000000abcd, flow_label = 0x12345,
                       sgid_index = 1, hop_limit = 64, traffic_class = 2\<rparr>,
               dlid = 0x1234, sl = 3, src_path_bits = 1, static_rate = 2, is_global = 1,
               port_num = 1\<rparr>"

definition attr0 :: ibv_qp_init_attr where
  "attr0 = \<lparr>attr_send_cq = 100, attr_recv_cq = 100, attr_srq = None, cap = cap0,
            qp_type = IBV_QPT_RC, sq_sig_all = 1\<rparr>"

text \<open>A request for no send work requests, and a kernel that returns the capabilities as asked.\<close>

definition attr_z :: ibv_qp_init_attr where
  "attr_z = \<lparr>attr_send_cq = 100, attr_recv_cq = 100, attr_srq = None,
            cap = cap0\<lparr>max_send_wr := 0\<rparr>, qp_type = IBV_QPT_RC, sq_sig_all = 0\<rparr>"

definition qp_env_z :: create_qp_env where
  "qp_env_z = qp_env0\<lparr>resp_cap := cap0\<lparr>max_send_wr := 0\<rparr>\<rparr>"

text \<open>A request for no receive work requests, and a kernel that returns one.\<close>

definition attr_r :: ibv_qp_init_attr where
  "attr_r = \<lparr>attr_send_cq = 100, attr_recv_cq = 100, attr_srq = None,
            cap = cap0\<lparr>max_recv_wr := 0\<rparr>, qp_type = IBV_QPT_RC, sq_sig_all = 0\<rparr>"

definition qp_env_r :: create_qp_env where
  "qp_env_r = qp_env0\<lparr>resp_cap := cap0\<lparr>max_recv_wr := 1\<rparr>\<rparr>"

section \<open>Rounding queue sizes\<close>

lemma align_queue_loop_inv:
  assumes "add_int sz spare = Some b" "b \<le> 2 ^ 30" "ret = 2 ^ k" "k = 0 \<or> 2 ^ (k - 1) < b"
  shows "\<exists>r. align_queue_loop sz spare ret = Some r \<and> (\<exists>k'. r = 2 ^ k') \<and> b \<le> r
           \<and> (\<forall>j::nat. b \<le> 2 ^ j \<longrightarrow> r \<le> 2 ^ j)"
  using assms
proof (induction "nat (b - ret)" arbitrary: ret k rule: less_induct)
  case less
  show ?case
  proof (cases "ret < b")
    case True
    have pos: "0 < ret" using less.prems by simp
    have le: "2 * ret \<le> INT_MAX" using True less.prems(2) by (simp add: INT_MAX_def)
    have sh: "shl1 ret = Some (2 * ret)" using pos le by (simp add: shl1_def)
    have m: "nat (b - 2 * ret) < nat (b - ret)" using True pos by simp
    have r2: "2 * ret = 2 ^ Suc k" using less.prems(3) by simp
    have inv: "Suc k = 0 \<or> (2::int) ^ (Suc k - 1) < b" using True less.prems(3) by simp
    from less.hyps[OF m less.prems(1,2) r2 inv]
    obtain r where r: "align_queue_loop sz spare (2 * ret) = Some r" "\<exists>k'. r = 2 ^ k'" "b \<le> r"
      "\<forall>j::nat. b \<le> 2 ^ j \<longrightarrow> r \<le> 2 ^ j" by blast
    have "align_queue_loop sz spare ret = Some r"
      using True sh r(1) less.prems(1) by (subst align_queue_loop.simps) simp
    then show ?thesis using r by blast
  next
    case False
    have e: "align_queue_loop sz spare ret = Some ret"
      using False less.prems(1) by (subst align_queue_loop.simps) simp
    have minimal: "ret \<le> 2 ^ j" if "b \<le> 2 ^ j" for j :: nat
    proof (cases "k = 0")
      case True
      then show ?thesis using less.prems(3) by simp
    next
      case nz: False
      then have lt: "(2::int) ^ (k - 1) < 2 ^ j" using less.prems(4) that by linarith
      then have "k - 1 < j" by simp
      then have "k \<le> j" using nz by simp
      then show ?thesis using less.prems(3) by simp
    qed
    show ?thesis using e False less.prems(3) minimal by auto
  qed
qed

lemma align_cq_loop_inv:
  assumes "cqe < 2 ^ 30" "nent = 2 ^ k" "k = 0 \<or> 2 ^ (k - 1) \<le> cqe"
  shows "\<exists>r. align_cq_loop cqe nent = Some r \<and> (\<exists>k'. r = 2 ^ k') \<and> cqe + 1 \<le> r
           \<and> (\<forall>j::nat. cqe + 1 \<le> 2 ^ j \<longrightarrow> r \<le> 2 ^ j)"
  using assms
proof (induction "nat (cqe + 1 - nent)" arbitrary: nent k rule: less_induct)
  case less
  show ?case
  proof (cases "nent \<le> cqe")
    case True
    have pos: "0 < nent" using less.prems by simp
    have le: "2 * nent \<le> INT_MAX" using True less.prems(1) by (simp add: INT_MAX_def)
    have sh: "shl1 nent = Some (2 * nent)" using pos le by (simp add: shl1_def)
    have m: "nat (cqe + 1 - 2 * nent) < nat (cqe + 1 - nent)" using True pos by simp
    have r2: "2 * nent = 2 ^ Suc k" using less.prems(2) by simp
    have inv: "Suc k = 0 \<or> (2::int) ^ (Suc k - 1) \<le> cqe" using True less.prems(2) by simp
    from less.hyps[OF m less.prems(1) r2 inv]
    obtain r where r: "align_cq_loop cqe (2 * nent) = Some r" "\<exists>k'. r = 2 ^ k'" "cqe + 1 \<le> r"
      "\<forall>j::nat. cqe + 1 \<le> 2 ^ j \<longrightarrow> r \<le> 2 ^ j" by blast
    have "align_cq_loop cqe nent = Some r"
      using True sh r(1) by (subst align_cq_loop.simps) simp
    then show ?thesis using r by blast
  next
    case False
    have e: "align_cq_loop cqe nent = Some nent"
      using False by (subst align_cq_loop.simps) simp
    have minimal: "nent \<le> 2 ^ j" if "cqe + 1 \<le> 2 ^ j" for j :: nat
    proof (cases "k = 0")
      case True
      then show ?thesis using less.prems(2) by simp
    next
      case nz: False
      then have lt: "(2::int) ^ (k - 1) < 2 ^ j" using less.prems(3) that by linarith
      then have "k - 1 < j" by simp
      then have "k \<le> j" using nz by simp
      then show ?thesis using less.prems(2) by simp
    qed
    show ?thesis using e False less.prems(2) minimal by auto
  qed
qed

lemma align_queue_size_least:
  assumes "sz \<noteq> 0" "INT_MIN \<le> sz + spare" "sz + spare \<le> 2 ^ 30"
  shows "\<exists>r. align_queue_size sz spare = Some r \<and> least_pow2_ge (sz + spare) r"
proof -
  have a: "add_int sz spare = Some (sz + spare)"
    using assms(2,3) by (simp add: add_int_def INT_MAX_def)
  from align_queue_loop_inv[OF a assms(3), of 1 0]
  show ?thesis using assms(1) by (simp add: align_queue_size_def least_pow2_ge_def)
qed

lemma align_cq_size_least:
  assumes "cqe < 2 ^ 30"
  shows "\<exists>r. align_cq_size cqe = Some r \<and> least_pow2_ge (cqe + 1) r"
  using align_cq_loop_inv[OF assms, of 1 0]
  by (simp add: align_cq_size_def least_pow2_ge_def)

lemma least_pow2_ge_bounds:
  assumes "least_pow2_ge n r" "n \<le> 2 ^ j"
  shows "1 \<le> r" "r \<le> 2 ^ j"
proof -
  from assms(1) obtain k :: nat where "r = 2 ^ k" by (auto simp: least_pow2_ge_def)
  then show "1 \<le> r" by simp
  show "r \<le> 2 ^ j" using assms by (simp add: least_pow2_ge_def)
qed

lemma least_pow2_ge_unique: "least_pow2_ge n r \<Longrightarrow> least_pow2_ge n r' \<Longrightarrow> r = r'"
  unfolding least_pow2_ge_def by (metis order_antisym)

lemma least_pow2_ge_self: "least_pow2_ge (2 ^ k) (2 ^ k)"
  by (simp add: least_pow2_ge_def)


text \<open>
  Claim C4, as amended.  For every requested depth \<open>d \<ge> 1\<close> with \<open>d + spare \<le> 2^30\<close>
  (where the \<open>int\<close> arithmetic has a value; the callers pass at most 65536),
  \<open>align_queue_size\<close> returns the smallest power of two that is at least \<open>d + spare\<close>,
  with spare 1 for the shared receive queue and 0 for a queue pair.  The completion-queue
  rounding \<open>align_cq_size\<close> returns, for \<open>1 \<le> d < 2^30\<close>, the smallest power of two
  that is at least \<open>d + 1\<close>, so it is always greater than \<open>d\<close>.
\<close>

theorem queue_size_rounding:
  "(1 \<le> d \<and> 0 \<le> spare \<and> d + spare \<le> 2 ^ 30 \<longrightarrow>
      (\<exists>r. align_queue_size d spare = Some r \<and> least_pow2_ge (d + spare) r)) \<and>
   (1 \<le> d \<and> d < 2 ^ 30 \<longrightarrow>
      (\<exists>r. align_cq_size d = Some r \<and> least_pow2_ge (d + 1) r \<and> d < r))"
proof (intro conjI impI)
  assume a: "1 \<le> d \<and> 0 \<le> spare \<and> d + spare \<le> 2 ^ 30"
  then have "d \<noteq> 0" "INT_MIN \<le> d + spare" by (simp_all add: INT_MIN_def)
  from align_queue_size_least[OF this] a
  show "\<exists>r. align_queue_size d spare = Some r \<and> least_pow2_ge (d + spare) r" by simp
next
  assume a: "1 \<le> d \<and> d < 2 ^ 30"
  then have "d < 2 ^ 30" by simp
  from align_cq_size_least[OF this]
  show "\<exists>r. align_cq_size d = Some r \<and> least_pow2_ge (d + 1) r \<and> d < r"
    by (auto simp: least_pow2_ge_def)
qed

theorem queue_size_rounding_witness:
  "align_queue_size 100 1 = Some 128 \<and> least_pow2_ge 101 128 \<and>
   align_queue_size 128 0 = Some 128 \<and> least_pow2_ge 128 128 \<and>
   align_cq_size 100 = Some 128 \<and> least_pow2_ge 101 128"
proof -
  have e: "align_queue_size 100 1 = Some 128" "align_queue_size 128 0 = Some 128"
    "align_cq_size 100 = Some 128"
    by (simp_all add: align_queue_size_def align_cq_size_def align_queue_loop.simps
        align_cq_loop.simps shl1_def add_int_def INT_MAX_def INT_MIN_def)
  have h1: "(1::int) \<le> 100 \<and> (0::int) \<le> 1 \<and> (100::int) + 1 \<le> 2 ^ 30" by simp
  have h2: "(1::int) \<le> 128 \<and> (0::int) \<le> 0 \<and> (128::int) + 0 \<le> 2 ^ 30" by simp
  have h3: "(1::int) \<le> 100 \<and> (100::int) < 2 ^ 30" by simp
  from queue_size_rounding[of 100 1] h1 e(1) have a: "least_pow2_ge 101 128" by simp
  from queue_size_rounding[of 128 0] h2 e(2) have b: "least_pow2_ge 128 128" by simp
  from queue_size_rounding[of 100 1] h3 e(3) have c: "least_pow2_ge 101 128" by simp
  show ?thesis using e a b c by simp
qed


text \<open>
  Claim C4 as stated fails for the completion queue: the smallest power of two that is at
  least 128 is 128, and \<open>align_cq_size\<close> returns 256.
\<close>

theorem cq_rounding_doubles_counterexample:
  "align_cq_size 128 = Some 256 \<and> least_pow2_ge 128 128 \<and> \<not> least_pow2_ge 128 256"
proof -
  have e: "align_cq_size 128 = Some 256"
    by (simp add: align_cq_size_def align_cq_loop.simps shl1_def INT_MAX_def)
  have s: "least_pow2_ge 128 128" using least_pow2_ge_self[of 7] by simp
  have "\<not> least_pow2_ge 128 256"
  proof
    assume "least_pow2_ge 128 256"
    from least_pow2_ge_unique[OF this s] show False by simp
  qed
  then show ?thesis using e s by simp
qed


text \<open>
  The bounds of the amended claim are where the doubling stays an \<open>int\<close>: one step
  further the shift has no value.
\<close>

lemma align_queue_size_overflow: "align_queue_size 1073741825 0 = None"
  by (simp add: align_queue_size_def align_queue_loop.simps shl1_def add_int_def
      INT_MAX_def INT_MIN_def)

lemma align_cq_size_overflow: "align_cq_size 1073741824 = None"
  by (simp add: align_cq_size_def align_cq_loop.simps shl1_def INT_MAX_def)

section \<open>Creating a completion queue\<close>

lemma trace_emit: "trace (emit e w) = trace w @ [e]"
  by (simp add: emit_def)

lemma trace_free: "trace (free a w) = trace w @ [Free a]"
  by (simp add: free_def emit_def)

lemma trace_free_opt: "trace (free_opt p w) = trace w @ free_events p"
  by (simp add: free_opt_def free_events_def trace_free split: option.splits)

lemma trace_free_buf: "trace (mlx4_free_buf b w) = trace w @ [FreeBuf b]"
  by (simp add: mlx4_free_buf_def emit_def)

lemma trace_free_db: "trace (mlx4_free_db d w) = trace w @ [FreeDb d]"
  by (simp add: mlx4_free_db_def emit_def)

lemma mul_int_small:
  assumes "1 \<le> n" "n \<le> 2 ^ 22" "0 \<le> c" "c \<le> 511"
  shows "mul_int n c = Some (n * c)"
proof -
  have "n * c \<le> 2 ^ 22 * 511" using assms by (intro mult_mono) simp_all
  moreover have "0 \<le> n * c" using assms by simp
  ultimately show ?thesis by (simp add: mul_int_def INT_MAX_def INT_MIN_def)
qed

lemma create_cq_accepted:
  assumes "cqe \<le> 0x3fffff" "0 \<le> MLX4_CQ_ENTRY_SIZE H" "MLX4_CQ_ENTRY_SIZE H \<le> 511"
  shows "\<exists>r w' rest. mlx4_create_cq H E cqe w = Some (r, w') \<and>
           trace w' = trace w @ Malloc (cq_malloc_ret E) # rest"
proof -
  have "cqe < 2 ^ 30" using assms(1) by simp
  from align_cq_size_least[OF this] obtain nent where
    n: "align_cq_size cqe = Some nent" "least_pow2_ge (cqe + 1) nent" by blast
  have "cqe + 1 \<le> 2 ^ 22" using assms(1) by simp
  from least_pow2_ge_bounds[OF n(2) this] have b: "1 \<le> nent" "nent \<le> 2 ^ 22" .
  have m: "mul_int nent (MLX4_CQ_ENTRY_SIZE H) = Some (nent * MLX4_CQ_ENTRY_SIZE H)"
    by (rule mul_int_small[OF b assms(2,3)])
  show ?thesis
    using assms(1) n(1) m
    by (simp add: mlx4_create_cq_def malloc_def pthread_spin_init_def mlx4_alloc_buf_def
        mlx4_alloc_db_def Let_def trace_emit trace_free trace_free_buf trace_free_db
        split: option.splits)
qed


text \<open>
  Claim C5, as amended.  \<open>mlx4_create_cq\<close> returns \<open>NULL\<close> with the state untouched, no
  call made, when the requested depth exceeds \<open>2^22 - 1\<close>; every depth up to \<open>2^22 - 1\<close>
  passes the check, and the first thing done then is the call of \<open>malloc\<close>.  The size of a
  completion-queue entry is taken between 0 and 511 bytes, so that the buffer size has a
  value.
\<close>

theorem create_cq_size_check:
  assumes "0 \<le> MLX4_CQ_ENTRY_SIZE H" "MLX4_CQ_ENTRY_SIZE H \<le> 511"
  shows "(cqe > 2 ^ 22 - 1 \<longrightarrow> mlx4_create_cq H E cqe w = Some (None, w)) \<and>
         (cqe \<le> 2 ^ 22 - 1 \<longrightarrow>
            (\<exists>r w' rest. mlx4_create_cq H E cqe w = Some (r, w') \<and>
               trace w' = trace w @ Malloc (cq_malloc_ret E) # rest))"
proof (intro conjI impI)
  assume "cqe > 2 ^ 22 - 1"
  then show "mlx4_create_cq H E cqe w = Some (None, w)"
    by (simp add: mlx4_create_cq_def)
next
  assume "cqe \<le> 2 ^ 22 - 1"
  then have "cqe \<le> 0x3fffff" by simp
  from create_cq_accepted[OF this assms]
  show "\<exists>r w' rest. mlx4_create_cq H E cqe w = Some (r, w') \<and>
               trace w' = trace w @ Malloc (cq_malloc_ret E) # rest" .
qed

lemma align_cq_size_4194303: "align_cq_size 4194303 = Some 4194304"
  by (simp add: align_cq_size_def align_cq_loop.simps shl1_def INT_MAX_def)

theorem create_cq_size_check_witness:
  "mlx4_create_cq hdr0 cq_env0 4194305 world0 = Some (None, world0) \<and>
   (\<exists>w'. mlx4_create_cq hdr0 cq_env0 4194303 world0 = Some (Some 900, w') \<and>
      trace w' = [Malloc (Some 900), SpinInit (CqLock 900), AllocBuf 134217728 4096,
                  Memset 20480 134217728, AllocDb MLX4_DB_TYPE_CQ,
                  CmdCreateCq 4194303 20480 80])"
proof -
  have h: "0 \<le> MLX4_CQ_ENTRY_SIZE hdr0" "MLX4_CQ_ENTRY_SIZE hdr0 \<le> 511"
    by (simp_all add: hdr0_def)
  have a: "mlx4_create_cq hdr0 cq_env0 4194305 world0 = Some (None, world0)"
    using create_cq_size_check[OF h, of 4194305 cq_env0 world0] by simp
  from create_cq_size_check[OF h, of 4194303 cq_env0 world0]
  obtain r w' rest where w: "mlx4_create_cq hdr0 cq_env0 4194303 world0 = Some (r, w')"
    "trace w' = trace world0 @ Malloc (cq_malloc_ret cq_env0) # rest"
    by auto
  have e: "map_option (\<lambda>p. (fst p, trace (snd p))) (mlx4_create_cq hdr0 cq_env0 4194303 world0) =
     Some (Some 900, [Malloc (Some 900), SpinInit (CqLock 900), AllocBuf 134217728 4096,
                  Memset 20480 134217728, AllocDb MLX4_DB_TYPE_CQ,
                  CmdCreateCq 4194303 20480 80])"
    by (simp add: mlx4_create_cq_def align_cq_size_4194303 mul_int_def INT_MAX_def INT_MIN_def
        malloc_def pthread_spin_init_def mlx4_alloc_buf_def mlx4_alloc_db_def Let_def
        emit_def cq_env0_def hdr0_def world0_def)
  show ?thesis using a w e by auto
qed


text \<open>
  Claim C5 as stated fails at the depth \<open>2^22\<close>: it is rejected, in an environment where
  every allocation and the kernel command would succeed.
\<close>

theorem create_cq_rejects_4194304_counterexample:
  "mlx4_create_cq hdr0 cq_env0 (2 ^ 22) world0 = Some (None, world0)"
  by (simp add: mlx4_create_cq_def)

lemma align_cq_size_100: "align_cq_size 100 = Some 128"
  by (simp add: align_cq_size_def align_cq_loop.simps shl1_def INT_MAX_def)


text \<open>
  Claim C6.  When \<open>mlx4_create_cq\<close> succeeds for the requested depth 100, the buffer it
  allocated holds 128 entries, the kernel command received the depth 127, and the object
  has consumer index 0, arm sequence 1 and the identifier \<open>resp.cqn\<close> returned by the
  kernel; both doorbell words are 0.
\<close>

theorem create_cq_depth_100:
  assumes "mlx4_create_cq H E 100 w = Some (Some cq, w')"
  shows "\<exists>buf d. trace w' = trace w @
            [Malloc (Some cq), SpinInit (CqLock cq),
             AllocBuf (128 * MLX4_CQ_ENTRY_SIZE H) (page_size w),
             Memset buf (128 * MLX4_CQ_ENTRY_SIZE H), AllocDb MLX4_DB_TYPE_CQ,
             CmdCreateCq 127 buf d] \<and>
          cqs w' cq = Some \<lparr>cq_buf = buf, cons_index = 0, set_ci_db = d, arm_db = d + 1,
                            arm_sn = 1, cqn = resp_cqn E\<rparr> \<and>
          dbrec w' d = Some 0 \<and> dbrec w' (d + 1) = Some 0"
  using assms
  by (auto simp add: mlx4_create_cq_def align_cq_size_100 mul_int_def malloc_def
      pthread_spin_init_def mlx4_alloc_buf_def mlx4_alloc_db_def Let_def emit_def
      split: option.splits if_splits)

theorem create_cq_depth_100_witness:
  "\<exists>w'. mlx4_create_cq hdr0 cq_env0 100 world0 = Some (Some 900, w') \<and>
     trace w' = [Malloc (Some 900), SpinInit (CqLock 900), AllocBuf 4096 4096,
                 Memset 20480 4096, AllocDb MLX4_DB_TYPE_CQ, CmdCreateCq 127 20480 80] \<and>
     cqs w' 900 = Some \<lparr>cq_buf = 20480, cons_index = 0, set_ci_db = 80, arm_db = 81,
                         arm_sn = 1, cqn = 11\<rparr>"
proof -
  have "\<exists>w'. mlx4_create_cq hdr0 cq_env0 100 world0 = Some (Some 900, w')"
    by (simp add: mlx4_create_cq_def align_cq_size_100 mul_int_def INT_MAX_def INT_MIN_def
        malloc_def pthread_spin_init_def mlx4_alloc_buf_def mlx4_alloc_db_def Let_def
        cq_env0_def hdr0_def)
  then obtain w' where e: "mlx4_create_cq hdr0 cq_env0 100 world0 = Some (Some 900, w')" ..
  from create_cq_depth_100[OF e] obtain buf d where
    r: "trace w' = trace world0 @
            [Malloc (Some 900), SpinInit (CqLock 900),
             AllocBuf (128 * MLX4_CQ_ENTRY_SIZE hdr0) (page_size world0),
             Memset buf (128 * MLX4_CQ_ENTRY_SIZE hdr0), AllocDb MLX4_DB_TYPE_CQ,
             CmdCreateCq 127 buf d]"
       "cqs w' 900 = Some \<lparr>cq_buf = buf, cons_index = 0, set_ci_db = d, arm_db = d + 1,
                            arm_sn = 1, cqn = resp_cqn cq_env0\<rparr>"
    by blast
  have bd: "map_option (\<lambda>p. cqs (snd p) 900) (mlx4_create_cq hdr0 cq_env0 100 world0) =
      Some (Some \<lparr>cq_buf = 20480, cons_index = 0, set_ci_db = 80, arm_db = 81,
                         arm_sn = 1, cqn = 11\<rparr>)"
    by (simp add: mlx4_create_cq_def align_cq_size_100 mul_int_def INT_MAX_def INT_MIN_def
        malloc_def pthread_spin_init_def mlx4_alloc_buf_def mlx4_alloc_db_def Let_def
        cq_env0_def hdr0_def emit_def)
  have "buf = 20480 \<and> d = 80" using bd r(2) e by simp
  then show ?thesis using e r by (auto simp: hdr0_def world0_def cq_env0_def)
qed


section \<open>Locking and destroying a queue pair\<close>

lemma mlx4_lock_cqs_eq:
  assumes "qps w qp = Some q" "cqs w (send_cq q) = Some s" "cqs w (recv_cq q) = Some r"
  shows "mlx4_lock_cqs qp w = Some (w\<lparr>trace := trace w @ map SpinLock (lock_list q s r)\<rparr>)"
  using assms by (simp add: mlx4_lock_cqs_def lock_list_def pthread_spin_lock_def emit_def)

lemma mlx4_unlock_cqs_eq:
  assumes "qps w qp = Some q" "cqs w (send_cq q) = Some s" "cqs w (recv_cq q) = Some r"
  shows "mlx4_unlock_cqs qp w = Some (w\<lparr>trace := trace w @ map SpinUnlock (rev (lock_list q s r))\<rparr>)"
  using assms by (simp add: mlx4_unlock_cqs_def lock_list_def pthread_spin_unlock_def emit_def)

lemma clean_step:
  "(if send_cq q \<noteq> recv_cq q
    then mlx4_cq_clean (send_cq q) (qp_num q) None (mlx4_cq_clean (recv_cq q) (qp_num q) (srq q) w)
    else mlx4_cq_clean (recv_cq q) (qp_num q) (srq q) w) = w\<lparr>trace := trace w @ clean_events q\<rparr>"
  by (simp add: mlx4_cq_clean_def emit_def clean_events_def)

lemma destroy_qp_fail_eq:
  assumes "qps w ibqp = Some q" "cqs w (send_cq q) = Some s" "cqs w (recv_cq q) = Some r"
    and "destroy_cmd_ret E \<noteq> 0"
  shows "mlx4_destroy_qp E ibqp w =
     Some (destroy_cmd_ret E,
       w\<lparr>qp_table := (if restore_ret E = 0 then (qp_table w)(qp_num q \<mapsto> ibqp)
                        else (qp_table w)(qp_num q := None)),
         trace := trace w @ clean_events q @ map SpinLock (lock_list q s r) @ [ClearQp (qp_num q)]
                   @ map SpinUnlock (rev (lock_list q s r)) @ [CmdDestroyQp ibqp]
                   @ map SpinLock (lock_list q s r) @ [StoreQp (qp_num q) ibqp]
                   @ map SpinUnlock (rev (lock_list q s r))\<rparr>)"
  using assms
  by (simp add: mlx4_destroy_qp_def clean_step mlx4_lock_cqs_eq[where q=q and s=s and r=r]
      mlx4_unlock_cqs_eq[where q=q and s=s and r=r] mlx4_clear_qp_def
      mlx4_store_qp_def emit_def Let_def)


lemma free_opt_fields:
  "trace (free_opt p w) = trace w @ free_events p"
  "qp_table (free_opt p w) = qp_table w"
  "dbrec (free_opt p w) = dbrec w"
  by (simp_all add: free_opt_def free_def emit_def free_events_def split: option.splits)

lemma free_fields:
  "trace (free a w) = trace w @ [Free a]"
  "qp_table (free a w) = qp_table w"
  "dbrec (free a w) = dbrec w"
  "qps (free a w) a = None"
  "cqs (free a w) a = None"
  "ahs (free a w) a = None"
  by (simp_all add: free_def emit_def)

lemma mlx4_free_buf_fields:
  "trace (mlx4_free_buf b w) = trace w @ [FreeBuf b]"
  "qp_table (mlx4_free_buf b w) = qp_table w"
  "dbrec (mlx4_free_buf b w) = dbrec w"
  by (simp_all add: mlx4_free_buf_def emit_def)

lemma mlx4_free_db_fields:
  "trace (mlx4_free_db d w) = trace w @ [FreeDb d]"
  "qp_table (mlx4_free_db d w) = qp_table w"
  "dbrec (mlx4_free_db d w) = (dbrec w)(d := None)"
  by (simp_all add: mlx4_free_db_def emit_def)

lemma destroy_qp_ok_eq:
  assumes "qps w ibqp = Some q" "cqs w (send_cq q) = Some s" "cqs w (recv_cq q) = Some r"
    and "destroy_cmd_ret E = 0"
  shows "\<exists>w'. mlx4_destroy_qp E ibqp w = Some (0, w') \<and>
       qp_table w' = (qp_table w)(qp_num q := None) \<and>
       dbrec w' = (dbrec w)(db q := None) \<and>
       qps w' ibqp = None \<and>
       trace w' = trace w @ clean_events q @ map SpinLock (lock_list q s r) @ [ClearQp (qp_num q)]
                   @ map SpinUnlock (rev (lock_list q s r)) @ [CmdDestroyQp ibqp]
                   @ [FreeDb (db q)] @ free_events (wrid (sq q)) @ free_events (wrid (rq q))
                   @ [FreeBuf (qp_buf q), Free ibqp]"
proof -
  define w6 where "w6 = w\<lparr>qp_table := (qp_table w)(qp_num q := None),
      trace := trace w @ clean_events q @ map SpinLock (lock_list q s r) @ [ClearQp (qp_num q)]
                   @ map SpinUnlock (rev (lock_list q s r)) @ [CmdDestroyQp ibqp]\<rparr>"
  have e: "mlx4_destroy_qp E ibqp w =
     Some (0, free ibqp (mlx4_free_buf (qp_buf q)
                  (free_opt (wrid (rq q)) (free_opt (wrid (sq q)) (mlx4_free_db (db q) w6)))))"
    using assms
    by (simp add: mlx4_destroy_qp_def clean_step mlx4_lock_cqs_eq[where q=q and s=s and r=r]
      mlx4_unlock_cqs_eq[where q=q and s=s and r=r] mlx4_clear_qp_def emit_def Let_def w6_def)
  show ?thesis
    unfolding e
    by (simp add: free_fields free_opt_fields mlx4_free_buf_fields mlx4_free_db_fields)
       (simp add: w6_def)
qed


lemma no_release_clean: "\<forall>e\<in>set (clean_events q). \<not> is_release e"
  by (simp add: clean_events_def)


text \<open>
  Claim C7.  For a queue pair whose handles denote live objects, \<open>mlx4_lock_cqs\<close>
  followed by \<open>mlx4_unlock_cqs\<close> takes and releases one lock when the send and receive
  completion queues are the same object.  Otherwise it takes the two locks in strictly
  ascending order of \<open>cqn\<close> and releases them in the reverse order.  Distinct completion
  queues are taken to carry distinct kernel-assigned identifiers.
\<close>

theorem lock_unlock_cqs_protocol:
  assumes "qps w qp = Some q" "cqs w (send_cq q) = Some s" "cqs w (recv_cq q) = Some r"
    and "send_cq q \<noteq> recv_cq q \<longrightarrow> cqn s \<noteq> cqn r"
  shows "\<exists>w1 w2. mlx4_lock_cqs qp w = Some w1 \<and> mlx4_unlock_cqs qp w1 = Some w2 \<and>
      (send_cq q = recv_cq q \<longrightarrow>
         trace w1 = trace w @ [SpinLock (CqLock (send_cq q))] \<and>
         trace w2 = trace w1 @ [SpinUnlock (CqLock (send_cq q))]) \<and>
      (send_cq q \<noteq> recv_cq q \<longrightarrow>
         (\<exists>a b ca cb. {a, b} = {send_cq q, recv_cq q} \<and> cqs w a = Some ca \<and> cqs w b = Some cb \<and>
            cqn ca < cqn cb \<and>
            trace w1 = trace w @ [SpinLock (CqLock a), SpinLock (CqLock b)] \<and>
            trace w2 = trace w1 @ [SpinUnlock (CqLock b), SpinUnlock (CqLock a)]))"
proof (cases "send_cq q = recv_cq q")
  case True
  then show ?thesis using assms
    by (simp add: mlx4_lock_cqs_def mlx4_unlock_cqs_def pthread_spin_lock_def
        pthread_spin_unlock_def emit_def)
next
  case False
  note ne = False
  show ?thesis
  proof (cases "cqn s < cqn r")
    case True
    have "\<exists>a b ca cb. {a, b} = {send_cq q, recv_cq q} \<and> cqs w a = Some ca \<and> cqs w b = Some cb \<and>
            cqn ca < cqn cb \<and>
            trace w @ [SpinLock (CqLock (send_cq q)), SpinLock (CqLock (recv_cq q))]
              = trace w @ [SpinLock (CqLock a), SpinLock (CqLock b)] \<and>
            [SpinUnlock (CqLock (recv_cq q)), SpinUnlock (CqLock (send_cq q))]
              = [SpinUnlock (CqLock b), SpinUnlock (CqLock a)]"
      using assms True by (intro exI[of _ "send_cq q"] exI[of _ "recv_cq q"] exI[of _ s] exI[of _ r]) simp
    then show ?thesis using assms ne True
      by (simp add: mlx4_lock_cqs_def mlx4_unlock_cqs_def pthread_spin_lock_def
          pthread_spin_unlock_def emit_def)
  next
    case False
    then have lt: "cqn r < cqn s" using assms(4) ne by auto
    have "\<exists>a b ca cb. {a, b} = {send_cq q, recv_cq q} \<and> cqs w a = Some ca \<and> cqs w b = Some cb \<and>
            cqn ca < cqn cb \<and>
            trace w @ [SpinLock (CqLock (recv_cq q)), SpinLock (CqLock (send_cq q))]
              = trace w @ [SpinLock (CqLock a), SpinLock (CqLock b)] \<and>
            [SpinUnlock (CqLock (send_cq q)), SpinUnlock (CqLock (recv_cq q))]
              = [SpinUnlock (CqLock b), SpinUnlock (CqLock a)]"
      using assms lt by (intro exI[of _ "recv_cq q"] exI[of _ "send_cq q"] exI[of _ r] exI[of _ s]) auto
    then show ?thesis using assms ne False
      by (simp add: mlx4_lock_cqs_def mlx4_unlock_cqs_def pthread_spin_lock_def
          pthread_spin_unlock_def emit_def)
  qed
qed

theorem lock_unlock_cqs_protocol_witness:
  "(\<exists>w1 w2. mlx4_lock_cqs 500 world0 = Some w1 \<and> mlx4_unlock_cqs 500 w1 = Some w2 \<and>
     trace w1 = [SpinLock (CqLock 100), SpinLock (CqLock 200)] \<and>
     trace w2 = [SpinLock (CqLock 100), SpinLock (CqLock 200),
                 SpinUnlock (CqLock 200), SpinUnlock (CqLock 100)]) \<and>
   (\<exists>w1 w2. mlx4_lock_cqs 600 world0 = Some w1 \<and> mlx4_unlock_cqs 600 w1 = Some w2 \<and>
     trace w1 = [SpinLock (CqLock 100)] \<and>
     trace w2 = [SpinLock (CqLock 100), SpinUnlock (CqLock 100)])"
proof -
  have h: "qps world0 500 = Some qp_x" "cqs world0 (send_cq qp_x) = Some cq_b"
    "cqs world0 (recv_cq qp_x) = Some cq_a" "send_cq qp_x \<noteq> recv_cq qp_x \<longrightarrow> cqn cq_b \<noteq> cqn cq_a"
    by (simp_all add: world0_def qp_x_def cq_a_def cq_b_def)
  from lock_unlock_cqs_protocol[OF h]
  obtain w1 w2 where a: "mlx4_lock_cqs 500 world0 = Some w1" "mlx4_unlock_cqs 500 w1 = Some w2"
    and b: "send_cq qp_x \<noteq> recv_cq qp_x \<longrightarrow>
         (\<exists>a b ca cb. {a, b} = {send_cq qp_x, recv_cq qp_x} \<and> cqs world0 a = Some ca \<and> cqs world0 b = Some cb \<and>
            cqn ca < cqn cb \<and>
            trace w1 = trace world0 @ [SpinLock (CqLock a), SpinLock (CqLock b)] \<and>
            trace w2 = trace w1 @ [SpinUnlock (CqLock b), SpinUnlock (CqLock a)])"
    by blast
  have ne: "send_cq qp_x \<noteq> recv_cq qp_x" by (simp add: qp_x_def)
  from b ne obtain a b ca cb where c: "{a, b} = {send_cq qp_x, recv_cq qp_x}"
     "cqs world0 a = Some ca" "cqs world0 b = Some cb" "cqn ca < cqn cb"
     "trace w1 = trace world0 @ [SpinLock (CqLock a), SpinLock (CqLock b)]"
     "trace w2 = trace w1 @ [SpinUnlock (CqLock b), SpinUnlock (CqLock a)]" by blast
  have "a = 100 \<and> b = 200"
    using c(1-4) by (auto simp: qp_x_def world0_def cq_a_def cq_b_def doubleton_eq_iff)
  then have two: "\<exists>w1 w2. mlx4_lock_cqs 500 world0 = Some w1 \<and> mlx4_unlock_cqs 500 w1 = Some w2 \<and>
     trace w1 = [SpinLock (CqLock 100), SpinLock (CqLock 200)] \<and>
     trace w2 = [SpinLock (CqLock 100), SpinLock (CqLock 200),
                 SpinUnlock (CqLock 200), SpinUnlock (CqLock 100)]"
    using a c(5,6) by (simp add: world0_def)
  have k: "qps world0 600 = Some qp_y" "cqs world0 (send_cq qp_y) = Some cq_a"
    "cqs world0 (recv_cq qp_y) = Some cq_a" "send_cq qp_y \<noteq> recv_cq qp_y \<longrightarrow> cqn cq_a \<noteq> cqn cq_a"
    by (simp_all add: world0_def qp_y_def)
  have eq: "send_cq qp_y = recv_cq qp_y" "send_cq qp_y = 100" by (simp_all add: qp_y_def)
  from lock_unlock_cqs_protocol[OF k] eq(1)
  obtain v1 v2 where d: "mlx4_lock_cqs 600 world0 = Some v1" "mlx4_unlock_cqs 600 v1 = Some v2"
    "trace v1 = trace world0 @ [SpinLock (CqLock (send_cq qp_y))]"
    "trace v2 = trace v1 @ [SpinUnlock (CqLock (send_cq qp_y))]"
    by auto
  have one: "\<exists>w1 w2. mlx4_lock_cqs 600 world0 = Some w1 \<and> mlx4_unlock_cqs 600 w1 = Some w2 \<and>
     trace w1 = [SpinLock (CqLock 100)] \<and>
     trace w2 = [SpinLock (CqLock 100), SpinUnlock (CqLock 100)]"
    using d by (simp add: eq(2) world0_def)
  show ?thesis using two one by blast
qed


text \<open>
  The failure path of \<open>mlx4_destroy_qp\<close>.  When the kernel destroy command fails, the
  function returns the kernel's code; after the command it takes the locks in the order of
  \<open>mlx4_lock_cqs\<close>, calls \<open>mlx4_store_qp\<close> and releases the locks in reverse; nothing is
  released and every object and doorbell record is as before; a second
  \<open>mlx4_destroy_qp\<close> on the same handle returns.  The queue-pair number is findable
  afterwards when \<open>mlx4_store_qp\<close> returned 0.
\<close>

lemma destroy_qp_kernel_failure:
  assumes "qps w ibqp = Some q" "cqs w (send_cq q) = Some s" "cqs w (recv_cq q) = Some r"
    and "destroy_cmd_ret E \<noteq> 0"
  shows "\<exists>w'. mlx4_destroy_qp E ibqp w = Some (destroy_cmd_ret E, w') \<and>
      mlx4_lock_cqs ibqp w = Some (w\<lparr>trace := trace w @ map SpinLock (lock_list q s r)\<rparr>) \<and>
      trace w' = trace w @ clean_events q @ map SpinLock (lock_list q s r) @ [ClearQp (qp_num q)]
                   @ map SpinUnlock (rev (lock_list q s r)) @ [CmdDestroyQp ibqp]
                   @ map SpinLock (lock_list q s r) @ [StoreQp (qp_num q) ibqp]
                   @ map SpinUnlock (rev (lock_list q s r)) \<and>
      (\<forall>e\<in>set (drop (length (trace w)) (trace w')). \<not> is_release e) \<and>
      qps w' = qps w \<and> cqs w' = cqs w \<and> ahs w' = ahs w \<and> dbrec w' = dbrec w \<and>
      (restore_ret E = 0 \<longrightarrow> mlx4_find_qp w' (qp_num q) = Some ibqp) \<and>
      (\<forall>E2. \<exists>w''. mlx4_destroy_qp E2 ibqp w' = Some (destroy_cmd_ret E2, w''))"
proof -
  let ?L = "lock_list q s r"
  define w' where "w' = w\<lparr>qp_table := (if restore_ret E = 0 then (qp_table w)(qp_num q \<mapsto> ibqp)
                        else (qp_table w)(qp_num q := None)),
         trace := trace w @ clean_events q @ map SpinLock ?L @ [ClearQp (qp_num q)]
                   @ map SpinUnlock (rev ?L) @ [CmdDestroyQp ibqp]
                   @ map SpinLock ?L @ [StoreQp (qp_num q) ibqp]
                   @ map SpinUnlock (rev ?L)\<rparr>"
  have e: "mlx4_destroy_qp E ibqp w = Some (destroy_cmd_ret E, w')"
    unfolding w'_def by (rule destroy_qp_fail_eq[OF assms])
  have t: "trace w' = trace w @ clean_events q @ map SpinLock ?L @ [ClearQp (qp_num q)]
                   @ map SpinUnlock (rev ?L) @ [CmdDestroyQp ibqp]
                   @ map SpinLock ?L @ [StoreQp (qp_num q) ibqp]
                   @ map SpinUnlock (rev ?L)"
    by (simp add: w'_def)
  have nr: "\<forall>e\<in>set (drop (length (trace w)) (trace w')). \<not> is_release e"
    unfolding t using no_release_clean[of q] by (simp add: ball_Un)
  have same: "qps w' = qps w" "cqs w' = cqs w" "ahs w' = ahs w" "dbrec w' = dbrec w"
    by (simp_all add: w'_def)
  have f: "restore_ret E = 0 \<longrightarrow> mlx4_find_qp w' (qp_num q) = Some ibqp"
    by (simp add: w'_def mlx4_find_qp_def)
  have look: "qps w' ibqp = Some q" "cqs w' (send_cq q) = Some s" "cqs w' (recv_cq q) = Some r"
    using assms(1-3) by (simp_all add: same)
  have again: "\<exists>w''. mlx4_destroy_qp E2 ibqp w' = Some (destroy_cmd_ret E2, w'')" for E2
  proof (cases "destroy_cmd_ret E2 = 0")
    case True
    from destroy_qp_ok_eq[OF look True] show ?thesis using True by auto
  next
    case False
    from destroy_qp_fail_eq[OF look False] show ?thesis by simp
  qed
  have lk: "mlx4_lock_cqs ibqp w = Some (w\<lparr>trace := trace w @ map SpinLock (lock_list q s r)\<rparr>)"
    by (rule mlx4_lock_cqs_eq[OF assms(1-3)])
  show ?thesis using e lk t nr same f again by blast
qed

lemma destroy_qp_kernel_failure_example:
  "\<exists>w'. mlx4_destroy_qp \<lparr>destroy_cmd_ret = 16, restore_ret = 0\<rparr> 500 world0 = Some (16, w') \<and>
      trace w' = [CqClean 100 0x41 None, CqClean 200 0x41 None,
                  SpinLock (CqLock 100), SpinLock (CqLock 200), ClearQp 0x41,
                  SpinUnlock (CqLock 200), SpinUnlock (CqLock 100), CmdDestroyQp 500,
                  SpinLock (CqLock 100), SpinLock (CqLock 200), StoreQp 0x41 500,
                  SpinUnlock (CqLock 200), SpinUnlock (CqLock 100)] \<and>
      qps w' 500 = Some qp_x \<and> mlx4_find_qp w' 0x41 = Some 500 \<and>
      (\<exists>w''. mlx4_destroy_qp \<lparr>destroy_cmd_ret = 0, restore_ret = 0\<rparr> 500 w' = Some (0, w''))"
proof -
  have h: "qps world0 500 = Some qp_x" "cqs world0 (send_cq qp_x) = Some cq_b"
    "cqs world0 (recv_cq qp_x) = Some cq_a"
    "destroy_cmd_ret \<lparr>destroy_cmd_ret = 16, restore_ret = 0\<rparr> \<noteq> 0"
    by (simp_all add: world0_def qp_x_def)
  have l: "lock_list qp_x cq_b cq_a = [CqLock 100, CqLock 200]"
    by (simp add: lock_list_def qp_x_def cq_a_def cq_b_def)
  have c: "clean_events qp_x = [CqClean 100 0x41 None, CqClean 200 0x41 None]"
    by (simp add: clean_events_def qp_x_def)
  have n: "qp_num qp_x = 0x41" by (simp add: qp_x_def)
  have t0: "trace world0 = []" by (simp add: world0_def)
  from destroy_qp_kernel_failure[OF h] obtain w' where
    w: "mlx4_destroy_qp \<lparr>destroy_cmd_ret = 16, restore_ret = 0\<rparr> 500 world0 = Some (16, w')"
      "trace w' = trace world0 @ clean_events qp_x @ map SpinLock (lock_list qp_x cq_b cq_a)
          @ [ClearQp (qp_num qp_x)] @ map SpinUnlock (rev (lock_list qp_x cq_b cq_a))
          @ [CmdDestroyQp 500] @ map SpinLock (lock_list qp_x cq_b cq_a)
          @ [StoreQp (qp_num qp_x) 500] @ map SpinUnlock (rev (lock_list qp_x cq_b cq_a))"
      "qps w' = qps world0"
      "restore_ret \<lparr>destroy_cmd_ret = 16, restore_ret = 0\<rparr> = 0 \<longrightarrow> mlx4_find_qp w' (qp_num qp_x) = Some 500"
      "\<forall>E2. \<exists>w''. mlx4_destroy_qp E2 500 w' = Some (destroy_cmd_ret E2, w'')"
    by auto
  from w(5) obtain w'' where
    "mlx4_destroy_qp \<lparr>destroy_cmd_ret = 0, restore_ret = 0\<rparr> 500 w' = Some (0, w'')"
    by (metis destroy_qp_env.select_convs(1))
  then show ?thesis using w(1-4) h(1) by (simp add: l c n t0)
qed


text \<open>
  Claim C1.  After a failed kernel destroy command the queue-pair number has to be findable
  in the Resource Table again.  \<open>mlx4_destroy_qp\<close> calls \<open>mlx4_store_qp\<close> for that and
  drops what it returns, where \<open>mlx4_create_qp\<close> checks the same call and unwinds.  With
  the kernel command returning 16 and \<open>mlx4_store_qp\<close> returning -1, the function
  returns 16 as if the object were registered again, and queue pair 0x41, findable before
  the call, is not findable after it.
\<close>

theorem destroy_qp_drops_failed_store:
  "map_option fst (mlx4_destroy_qp \<lparr>destroy_cmd_ret = 16, restore_ret = - 1\<rparr> 500 world0) = Some 16 \<and>
   map_option (\<lambda>r. mlx4_find_qp (snd r) 0x41)
     (mlx4_destroy_qp \<lparr>destroy_cmd_ret = 16, restore_ret = - 1\<rparr> 500 world0) = Some None \<and>
   mlx4_find_qp world0 0x41 = Some 500"
proof -
  have h: "qps world0 500 = Some qp_x" "cqs world0 (send_cq qp_x) = Some cq_b"
    "cqs world0 (recv_cq qp_x) = Some cq_a"
    "destroy_cmd_ret \<lparr>destroy_cmd_ret = 16, restore_ret = - 1\<rparr> \<noteq> 0"
    by (simp_all add: world0_def qp_x_def)
  show ?thesis
    unfolding destroy_qp_fail_eq[OF h]
    by (simp add: mlx4_find_qp_def qp_x_def world0_def)
qed


text \<open>
  Claim C3.  \<open>mlx4_destroy_qp\<close> first cleans the receive completion queue for the
  queue-pair number, with the shared receive queue if there is one, and the send completion
  queue if it is another object; then it removes the number from the Resource Table between
  taking and releasing the locks of \<open>mlx4_lock_cqs\<close>; only then it issues the kernel
  command.  When the kernel succeeds it returns 0 after releasing the doorbell, the
  work-request id arrays, the buffer and the object.
\<close>

theorem destroy_qp_order:
  assumes "qps w ibqp = Some q" "cqs w (send_cq q) = Some s" "cqs w (recv_cq q) = Some r"
  shows "\<exists>ret w' rest. mlx4_destroy_qp E ibqp w = Some (ret, w') \<and>
      mlx4_lock_cqs ibqp w = Some (w\<lparr>trace := trace w @ map SpinLock (lock_list q s r)\<rparr>) \<and>
      trace w' = trace w @ clean_events q @ map SpinLock (lock_list q s r) @ [ClearQp (qp_num q)]
                   @ map SpinUnlock (rev (lock_list q s r)) @ [CmdDestroyQp ibqp] @ rest \<and>
      set (lock_list q s r) = {CqLock (send_cq q), CqLock (recv_cq q)} \<and>
      (destroy_cmd_ret E = 0 \<longrightarrow>
         ret = 0 \<and>
         rest = [FreeDb (db q)] @ free_events (wrid (sq q)) @ free_events (wrid (rq q))
                 @ [FreeBuf (qp_buf q), Free ibqp] \<and>
         qps w' ibqp = None \<and> dbrec w' (db q) = None \<and> mlx4_find_qp w' (qp_num q) = None)"
proof (cases "destroy_cmd_ret E = 0")
  case True
  from destroy_qp_ok_eq[OF assms True] obtain w' where
    w: "mlx4_destroy_qp E ibqp w = Some (0, w')"
       "qp_table w' = (qp_table w)(qp_num q := None)"
       "dbrec w' = (dbrec w)(db q := None)"
       "qps w' ibqp = None"
       "trace w' = trace w @ clean_events q @ map SpinLock (lock_list q s r) @ [ClearQp (qp_num q)]
                   @ map SpinUnlock (rev (lock_list q s r)) @ [CmdDestroyQp ibqp]
                   @ [FreeDb (db q)] @ free_events (wrid (sq q)) @ free_events (wrid (rq q))
                   @ [FreeBuf (qp_buf q), Free ibqp]"
    by blast
  have s: "set (lock_list q s r) = {CqLock (send_cq q), CqLock (recv_cq q)}"
    by (auto simp: lock_list_def)
  show ?thesis
    apply (rule exI[of _ 0], rule exI[of _ w'])
    apply (rule exI[of _ "[FreeDb (db q)] @ free_events (wrid (sq q)) @ free_events (wrid (rq q))
                 @ [FreeBuf (qp_buf q), Free ibqp]"])
    using w s mlx4_lock_cqs_eq[OF assms] by (simp add: mlx4_find_qp_def)
next
  case False
  have s: "set (lock_list q s r) = {CqLock (send_cq q), CqLock (recv_cq q)}"
    by (auto simp: lock_list_def)
  show ?thesis
    unfolding destroy_qp_fail_eq[OF assms False]
    using False s mlx4_lock_cqs_eq[OF assms] by simp
qed

theorem destroy_qp_order_witness:
  "\<exists>w'. mlx4_destroy_qp \<lparr>destroy_cmd_ret = 0, restore_ret = 0\<rparr> 600 world0 = Some (0, w') \<and>
     trace w' = [CqClean 100 0x42 (Some 700), SpinLock (CqLock 100), ClearQp 0x42,
                 SpinUnlock (CqLock 100), CmdDestroyQp 600, FreeDb 74, Free 302,
                 FreeBuf 16384, Free 600] \<and>
     mlx4_find_qp w' 0x42 = None \<and> qps w' 600 = None"
proof -
  have h: "qps world0 600 = Some qp_y" "cqs world0 (send_cq qp_y) = Some cq_a"
    "cqs world0 (recv_cq qp_y) = Some cq_a"
    by (simp_all add: world0_def qp_y_def)
  have l: "lock_list qp_y cq_a cq_a = [CqLock 100]"
    by (simp add: lock_list_def qp_y_def)
  have c: "clean_events qp_y = [CqClean 100 0x42 (Some 700)]"
    by (simp add: clean_events_def qp_y_def)
  have v: "qp_num qp_y = 0x42" "db qp_y = 74" "qp_buf qp_y = 16384"
    "free_events (wrid (sq qp_y)) = [Free 302]" "free_events (wrid (rq qp_y)) = []"
    by (simp_all add: qp_y_def free_events_def)
  have t0: "trace world0 = []" by (simp add: world0_def)
  from destroy_qp_order[OF h, of "\<lparr>destroy_cmd_ret = 0, restore_ret = 0\<rparr>"]
  obtain ret w' rest where
    w: "mlx4_destroy_qp \<lparr>destroy_cmd_ret = 0, restore_ret = 0\<rparr> 600 world0 = Some (ret, w')"
       "trace w' = trace world0 @ clean_events qp_y @ map SpinLock (lock_list qp_y cq_a cq_a)
           @ [ClearQp (qp_num qp_y)] @ map SpinUnlock (rev (lock_list qp_y cq_a cq_a))
           @ [CmdDestroyQp 600] @ rest"
       "ret = 0"
       "rest = [FreeDb (db qp_y)] @ free_events (wrid (sq qp_y)) @ free_events (wrid (rq qp_y))
                 @ [FreeBuf (qp_buf qp_y), Free 600]"
       "qps w' 600 = None" "mlx4_find_qp w' (qp_num qp_y) = None"
    by auto
  show ?thesis using w by (simp add: l c v t0)
qed


section \<open>Modifying a queue pair\<close>

text \<open>
  Claim C8.  When the kernel call succeeds, the mask has the state bit and the target state
  is reset, \<open>mlx4_modify_qp\<close> cleans the receive completion queue for the queue-pair
  number (with the shared receive queue if there is one), the send completion queue if it
  is another object, and sets head and tail of both work queues to 0; the buffer and
  doorbell addresses, and every other field, stay as they were.  In every other case the
  only effect is the kernel command.
\<close>

theorem modify_qp_reset_cleanup:
  assumes "qps w qp = Some q"
  shows "(cmd_ret = 0 \<and> attr_mask AND IBV_QP_STATE \<noteq> 0 \<and> qp_state attr = IBV_QPS_RESET \<longrightarrow>
            (\<exists>w' q'. mlx4_modify_qp cmd_ret qp attr attr_mask w = Some (0, w') \<and>
               trace w' = trace w @ CmdModifyQp qp attr attr_mask # clean_events q \<and>
               qps w' qp = Some q' \<and>
               head (sq q') = 0 \<and> tail (sq q') = 0 \<and> head (rq q') = 0 \<and> tail (rq q') = 0 \<and>
               qp_buf q' = qp_buf q \<and> db q' = db q \<and>
               q' = q\<lparr>sq := (sq q)\<lparr>head := 0, tail := 0\<rparr>, rq := (rq q)\<lparr>head := 0, tail := 0\<rparr>\<rparr> \<and>
               dbrec w' = dbrec w \<and> qp_table w' = qp_table w)) \<and>
         (\<not> (cmd_ret = 0 \<and> attr_mask AND IBV_QP_STATE \<noteq> 0 \<and> qp_state attr = IBV_QPS_RESET) \<longrightarrow>
            mlx4_modify_qp cmd_ret qp attr attr_mask w =
              Some (cmd_ret, w\<lparr>trace := trace w @ [CmdModifyQp qp attr attr_mask]\<rparr>))"
proof (cases "cmd_ret = 0 \<and> attr_mask AND IBV_QP_STATE \<noteq> 0 \<and> qp_state attr = IBV_QPS_RESET")
  case True
  have "mlx4_modify_qp cmd_ret qp attr attr_mask w =
      Some (0, w\<lparr>trace := trace w @ CmdModifyQp qp attr attr_mask # clean_events q,
                  qps := (qps w)(qp \<mapsto> mlx4_init_qp_indices q)\<rparr>)"
    using assms True
    by (simp add: mlx4_modify_qp_def Let_def clean_step) (simp add: emit_def)
  then show ?thesis using True by (simp add: mlx4_init_qp_indices_def)
next
  case False
  have "mlx4_modify_qp cmd_ret qp attr attr_mask w =
      Some (cmd_ret, w\<lparr>trace := trace w @ [CmdModifyQp qp attr attr_mask]\<rparr>)"
    using assms False by (auto simp add: mlx4_modify_qp_def Let_def emit_def)
  then show ?thesis using False by blast
qed

theorem modify_qp_reset_cleanup_witness:
  "(\<exists>w'. mlx4_modify_qp 0 600 \<lparr>qp_state = IBV_QPS_RESET\<rparr> 1 world0 = Some (0, w') \<and>
      trace w' = [CmdModifyQp 600 \<lparr>qp_state = IBV_QPS_RESET\<rparr> 1, CqClean 100 0x42 (Some 700)] \<and>
      map_option (\<lambda>q. (head (sq q), tail (sq q), head (rq q), tail (rq q), qp_buf q, db q))
         (qps w' 600) = Some (0, 0, 0, 0, 16384, 74)) \<and>
   mlx4_modify_qp 22 600 \<lparr>qp_state = IBV_QPS_RESET\<rparr> 1 world0 =
     Some (22, world0\<lparr>trace := [CmdModifyQp 600 \<lparr>qp_state = IBV_QPS_RESET\<rparr> 1]\<rparr>)"
proof -
  have h: "qps world0 600 = Some qp_y" by (simp add: world0_def)
  have a: "(0::int) = 0 \<and> (1::32 word) AND IBV_QP_STATE \<noteq> 0 \<and>
           qp_state \<lparr>qp_state = IBV_QPS_RESET\<rparr> = IBV_QPS_RESET"
    by (simp add: IBV_QP_STATE_def)
  have b: "\<not> ((22::int) = 0 \<and> (1::32 word) AND IBV_QP_STATE \<noteq> 0 \<and>
           qp_state \<lparr>qp_state = IBV_QPS_RESET\<rparr> = IBV_QPS_RESET)"
    by simp
  have c: "clean_events qp_y = [CqClean 100 0x42 (Some 700)]"
    by (simp add: clean_events_def qp_y_def)
  have t0: "trace world0 = []" by (simp add: world0_def)
  have v: "qp_buf qp_y = 16384" "db qp_y = 74" by (simp_all add: qp_y_def)
  from modify_qp_reset_cleanup[OF h, of 0 1 "\<lparr>qp_state = IBV_QPS_RESET\<rparr>"] a
  obtain w' q' where w: "mlx4_modify_qp 0 600 \<lparr>qp_state = IBV_QPS_RESET\<rparr> 1 world0 = Some (0, w')"
     "trace w' = trace world0 @ CmdModifyQp 600 \<lparr>qp_state = IBV_QPS_RESET\<rparr> 1 # clean_events qp_y"
     "qps w' 600 = Some q'" "head (sq q') = 0" "tail (sq q') = 0" "head (rq q') = 0" "tail (rq q') = 0"
     "qp_buf q' = qp_buf qp_y" "db q' = db qp_y"
    by blast
  have first: "\<exists>w'. mlx4_modify_qp 0 600 \<lparr>qp_state = IBV_QPS_RESET\<rparr> 1 world0 = Some (0, w') \<and>
      trace w' = [CmdModifyQp 600 \<lparr>qp_state = IBV_QPS_RESET\<rparr> 1, CqClean 100 0x42 (Some 700)] \<and>
      map_option (\<lambda>q. (head (sq q), tail (sq q), head (rq q), tail (rq q), qp_buf q, db q))
         (qps w' 600) = Some (0, 0, 0, 0, 16384, 74)"
    using w by (simp add: c t0 v)
  from modify_qp_reset_cleanup[OF h, of 22 1 "\<lparr>qp_state = IBV_QPS_RESET\<rparr>"] b
  have second: "mlx4_modify_qp 22 600 \<lparr>qp_state = IBV_QPS_RESET\<rparr> 1 world0 =
     Some (22, world0\<lparr>trace := [CmdModifyQp 600 \<lparr>qp_state = IBV_QPS_RESET\<rparr> 1]\<rparr>)"
    by (simp add: t0)
  show ?thesis using first second by blast
qed


section \<open>Creating a queue pair\<close>

lemma sint_small:
  fixes x :: "32 word"
  assumes "\<not> x > 65536"
  shows "0 \<le> sint x \<and> sint x \<le> 65536 \<and> (sint x = 0 \<longleftrightarrow> x = 0)"
proof -
  have le: "uint x \<le> 65536" using assms by (simp add: word_less_def not_less word_le_def)
  have ge: "0 \<le> uint x" by simp
  have "- (2 ^ 31) \<le> (0::int)" "(65536::int) < 2 ^ 31" by simp_all
  then have "- (2 ^ 31) \<le> uint x" "uint x < 2 ^ 31" using le ge by linarith+
  then have "signed_take_bit 31 (uint x) = uint x"
    by (rule signed_take_bit_int_eq_self)
  then have "sint x = uint x" by (simp add: sint_uint)
  then show ?thesis using le by (simp add: uint_0_iff)
qed

lemma log_sq_bb_count_loop_total:
  assumes "m \<le> 2 ^ 30" "k \<le> 30"
  shows "\<exists>k'. log_sq_bb_count_loop m k = Some k' \<and> k \<le> k' \<and> k' \<le> 30"
  using assms
proof (induction "30 - k" arbitrary: k)
  case 0
  then have k: "k = 30" by simp
  show ?case using "0.prems"(1) unfolding k by (subst log_sq_bb_count_loop.simps) simp
next
  case (Suc n)
  then have lt: "k < 30" by simp
  show ?case
  proof (cases "m > 2 ^ k")
    case True
    have "n = 30 - Suc k" using Suc.hyps(2) by simp
    from Suc.hyps(1)[OF this Suc.prems(1)] lt
    obtain k' where "log_sq_bb_count_loop m (Suc k) = Some k'" "Suc k \<le> k'" "k' \<le> 30" by auto
    then show ?thesis using True lt by (subst log_sq_bb_count_loop.simps) simp
  next
    case False
    then show ?thesis using lt by (subst log_sq_bb_count_loop.simps) simp
  qed
qed

lemma trace_err_free:
  "trace (err_free q qp w) =
     trace w @ free_events (wrid (sq q)) @ free_events (wrid (rq q)) @ [FreeBuf (qp_buf q), Free qp]"
  by (simp add: err_free_def trace_free trace_free_buf trace_free_opt)

lemma trace_err_rq_db:
  "trace (err_rq_db q qp w) =
     trace w @ FreeDb (db q) # free_events (wrid (sq q)) @ free_events (wrid (rq q))
       @ [FreeBuf (qp_buf q), Free qp]"
  by (simp add: err_rq_db_def trace_err_free trace_free_db)

lemma trace_err_destroy:
  "trace (err_destroy q qp w) =
     trace w @ CmdDestroyQp qp # FreeDb (db q) # free_events (wrid (sq q))
       @ free_events (wrid (rq q)) @ [FreeBuf (qp_buf q), Free qp]"
  by (simp add: err_destroy_def trace_err_rq_db trace_emit)

lemma align_queue_size_cap:
  fixes x :: "32 word"
  assumes "\<not> x > 65536"
  shows "\<exists>v. align_queue_size (sint x) 0 = Some v \<and> 0 \<le> v \<and> v \<le> 65536 \<and> (x = 0 \<longrightarrow> v = 0)"
proof (cases "x = 0")
  case True
  then show ?thesis by (simp add: align_queue_size_def)
next
  case False
  from sint_small[OF assms] False
  have s: "sint x \<noteq> 0" "INT_MIN \<le> sint x + 0" "sint x + 0 \<le> 2 ^ 30" "sint x + 0 \<le> 2 ^ 16"
    by (simp_all add: INT_MIN_def)
  from align_queue_size_least[OF s(1-3)] obtain r where
    r: "align_queue_size (sint x) 0 = Some r" "least_pow2_ge (sint x + 0) r" by blast
  from least_pow2_ge_bounds[OF r(2) s(4)] have "1 \<le> r" "r \<le> 2 ^ 16" .
  then show ?thesis using r(1) False by simp
qed

lemma create_qp_accepted:
  assumes "\<not> (max_send_wr (cap attr) > 65536 \<or> max_recv_wr (cap attr) > 65536 \<or>
              max_send_sge (cap attr) > 64 \<or> max_recv_sge (cap attr) > 64 \<or>
              max_inline_data (cap attr) > 1024)"
  shows "\<exists>sqm rqm bb.
     align_queue_size (sint (max_send_wr (cap attr))) 0 = Some sqm \<and>
     align_queue_size (sint (max_recv_wr (cap attr))) 0 = Some rqm \<and>
     log_sq_bb_count_loop sqm 0 = Some bb \<and>
     (case qp_malloc_ret E of
        None \<Rightarrow> mlx4_create_qp H E pd attr w = Some (None, emit (Malloc None) w)
      | Some qp \<Rightarrow>
          (\<exists>r w' rest. mlx4_create_qp H E pd attr w = Some (r, w') \<and>
             trace w' = trace w @ Malloc (Some qp)
                          # AllocQpBuf (cap attr) (qp_type attr) sqm rqm # rest))"
proof -
  from assms have l: "\<not> max_send_wr (cap attr) > 65536" "\<not> max_recv_wr (cap attr) > 65536"
    by simp_all
  from align_queue_size_cap[OF l(1)] obtain sqm where
    s: "align_queue_size (sint (max_send_wr (cap attr))) 0 = Some sqm" "0 \<le> sqm" "sqm \<le> 65536"
    by blast
  from align_queue_size_cap[OF l(2)] obtain rqm where
    r: "align_queue_size (sint (max_recv_wr (cap attr))) 0 = Some rqm"
    by blast
  have "sqm \<le> 2 ^ 30" using s(3) by simp
  from log_sq_bb_count_loop_total[OF this, of 0] obtain bb where
    b: "log_sq_bb_count_loop sqm 0 = Some bb" by auto
  have m: "case qp_malloc_ret E of
        None \<Rightarrow> mlx4_create_qp H E pd attr w = Some (None, emit (Malloc None) w)
      | Some qp \<Rightarrow>
          (\<exists>r w' rest. mlx4_create_qp H E pd attr w = Some (r, w') \<and>
             trace w' = trace w @ Malloc (Some qp)
                          # AllocQpBuf (cap attr) (qp_type attr) sqm rqm # rest)"
    using assms s(1) r b
    by (simp add: mlx4_create_qp_def malloc_def mlx4_alloc_qp_buf_def mlx4_init_qp_indices_def
        pthread_spin_init_def mlx4_alloc_db_def mlx4_store_qp_def Let_def
        trace_emit trace_free trace_err_free trace_err_rq_db trace_err_destroy
        split: option.splits)
  show ?thesis using s(1) r b m by blast
qed

lemma align_queue_size_65536: "align_queue_size 65536 0 = Some 65536"
  by (simp add: align_queue_size_def align_queue_loop.simps shl1_def add_int_def
      INT_MAX_def INT_MIN_def)

lemma align_queue_size_0: "align_queue_size 0 spare = Some 0"
  by (simp add: align_queue_size_def)

lemma log_sq_bb_count_65536: "log_sq_bb_count_loop 65536 0 = Some 16"
  by (simp add: log_sq_bb_count_loop.simps)

lemma log_sq_bb_count_0: "log_sq_bb_count_loop 0 0 = Some 0"
  by (simp add: log_sq_bb_count_loop.simps)

text \<open>
  Claim C2.  A request with send or receive depth above 65536, send or receive
  scatter-gather entries above 64, or inline data above 1024 bytes makes
  \<open>mlx4_create_qp\<close> return \<open>NULL\<close> with the state untouched: no allocator and no
  kernel command has been called.  Every other request, those at exactly the limits
  included, passes the check: \<open>mlx4_create_qp\<close> returns and its first call is \<open>malloc\<close>.
\<close>

theorem create_qp_capability_check:
  "(max_send_wr (cap attr) > 65536 \<or> max_recv_wr (cap attr) > 65536 \<or>
    max_send_sge (cap attr) > 64 \<or> max_recv_sge (cap attr) > 64 \<or>
    max_inline_data (cap attr) > 1024 \<longrightarrow>
      mlx4_create_qp H E pd attr w = Some (None, w)) \<and>
   (\<not> (max_send_wr (cap attr) > 65536 \<or> max_recv_wr (cap attr) > 65536 \<or>
       max_send_sge (cap attr) > 64 \<or> max_recv_sge (cap attr) > 64 \<or>
       max_inline_data (cap attr) > 1024) \<longrightarrow>
      (\<exists>r w' rest. mlx4_create_qp H E pd attr w = Some (r, w') \<and>
         trace w' = trace w @ Malloc (qp_malloc_ret E) # rest))"
proof (intro conjI impI)
  assume "max_send_wr (cap attr) > 65536 \<or> max_recv_wr (cap attr) > 65536 \<or>
    max_send_sge (cap attr) > 64 \<or> max_recv_sge (cap attr) > 64 \<or>
    max_inline_data (cap attr) > 1024"
  then show "mlx4_create_qp H E pd attr w = Some (None, w)"
    by (simp add: mlx4_create_qp_def)
next
  assume a: "\<not> (max_send_wr (cap attr) > 65536 \<or> max_recv_wr (cap attr) > 65536 \<or>
       max_send_sge (cap attr) > 64 \<or> max_recv_sge (cap attr) > 64 \<or>
       max_inline_data (cap attr) > 1024)"
  show "\<exists>r w' rest. mlx4_create_qp H E pd attr w = Some (r, w') \<and>
         trace w' = trace w @ Malloc (qp_malloc_ret E) # rest"
  proof (cases "qp_malloc_ret E")
    case None
    with create_qp_accepted[OF a, where E=E and H=H and pd=pd and w=w] show ?thesis
      by (auto simp: trace_emit)
  next
    case (Some qp)
    with create_qp_accepted[OF a, where E=E and H=H and pd=pd and w=w] show ?thesis
      by auto
  qed
qed

theorem create_qp_capability_check_witness:
  "mlx4_create_qp hdr0 qp_env0 pd0 (attr0\<lparr>cap := cap0\<lparr>max_send_wr := 65537\<rparr>\<rparr>) world0
     = Some (None, world0) \<and>
   mlx4_create_qp hdr0 qp_env0 pd0 (attr0\<lparr>cap := cap0\<lparr>max_inline_data := 1025\<rparr>\<rparr>) world0
     = Some (None, world0) \<and>
   map_option (\<lambda>p. (fst p, trace (snd p))) (mlx4_create_qp hdr0 qp_env0 pd0 attr0 world0) =
     Some (Some 1000,
       [Malloc (Some 1000), AllocQpBuf cap0 IBV_QPT_RC 65536 65536, SpinInit (SqLock 1000),
        SpinInit (RqLock 1000), AllocDb MLX4_DB_TYPE_RQ, CmdCreateQp 24576 82 6 16,
        StoreQp 0x43 1000])"
proof -
  have a: "mlx4_create_qp hdr0 qp_env0 pd0 (attr0\<lparr>cap := cap0\<lparr>max_send_wr := 65537\<rparr>\<rparr>) world0
     = Some (None, world0)"
    using create_qp_capability_check[of "attr0\<lparr>cap := cap0\<lparr>max_send_wr := 65537\<rparr>\<rparr>" hdr0 qp_env0 pd0 world0]
    by simp
  have b: "mlx4_create_qp hdr0 qp_env0 pd0 (attr0\<lparr>cap := cap0\<lparr>max_inline_data := 1025\<rparr>\<rparr>) world0
     = Some (None, world0)"
    using create_qp_capability_check[of "attr0\<lparr>cap := cap0\<lparr>max_inline_data := 1025\<rparr>\<rparr>" hdr0 qp_env0 pd0 world0]
    by simp
  have lim: "\<not> (max_send_wr (cap attr0) > 65536 \<or> max_recv_wr (cap attr0) > 65536 \<or>
       max_send_sge (cap attr0) > 64 \<or> max_recv_sge (cap attr0) > 64 \<or>
       max_inline_data (cap attr0) > 1024)"
    by (simp add: attr0_def cap0_def)
  from create_qp_capability_check[of attr0 hdr0 qp_env0 pd0 world0] lim
  obtain r w' rest where c: "mlx4_create_qp hdr0 qp_env0 pd0 attr0 world0 = Some (r, w')"
    "trace w' = trace world0 @ Malloc (qp_malloc_ret qp_env0) # rest"
    by blast
  have s: "sint (65536 :: 32 word) = 65536" by simp
  have d: "map_option (\<lambda>p. (fst p, trace (snd p))) (mlx4_create_qp hdr0 qp_env0 pd0 attr0 world0) =
     Some (Some 1000,
       [Malloc (Some 1000), AllocQpBuf cap0 IBV_QPT_RC 65536 65536, SpinInit (SqLock 1000),
        SpinInit (RqLock 1000), AllocDb MLX4_DB_TYPE_RQ, CmdCreateQp 24576 82 6 16,
        StoreQp 0x43 1000])"
    by (simp add: mlx4_create_qp_def attr0_def cap0_def qp_env0_def s align_queue_size_65536
        log_sq_bb_count_65536 malloc_def mlx4_alloc_qp_buf_def mlx4_init_qp_indices_def
        pthread_spin_init_def mlx4_alloc_db_def mlx4_store_qp_def Let_def emit_def world0_def)
  show ?thesis using a b d by simp
qed


lemma create_qp_success_object:
  assumes ok: "mlx4_create_qp H E pd attr w = Some (Some qp, w')"
    and sqm: "align_queue_size (sint (max_send_wr (cap attr))) 0 = Some sqm"
    and rqm: "align_queue_size (sint (max_recv_wr (cap attr))) 0 = Some rqm"
    and bb: "log_sq_bb_count_loop sqm 0 = Some bb"
  shows "\<exists>q5 q'. qps w' qp = Some q' \<and>
           sq q' = sq (set_sq_sizes E q5 (resp_cap E) (qp_type attr)) \<and>
           rq q' = rq (set_sq_sizes E q5 (resp_cap E) (qp_type attr)) \<and>
           wq_max (sq q5) = sqm \<and>
           wq_max (rq q5) = sint (max_recv_wr (resp_cap E))"
  using ok sqm rqm bb
  apply (clarsimp simp add: mlx4_create_qp_def malloc_def mlx4_alloc_qp_buf_def
        mlx4_init_qp_indices_def pthread_spin_init_def mlx4_alloc_db_def mlx4_store_qp_def
        Let_def emit_def split: option.splits if_splits)
   apply (rule exI, rule conjI, rule refl, simp)
  apply (rule exI, rule conjI, rule refl, simp)
  done

text \<open>
  Claim C10, as amended.  \<open>align_queue_size\<close> returns 0 for the depth 0, whatever the
  spare, so in \<open>mlx4_create_qp\<close> a side requested with no work requests is staged with
  depth 0: that is the depth \<open>mlx4_alloc_qp_buf\<close> receives.  When creation succeeds, the
  depths of the queue pair are those \<open>mlx4_set_sq_sizes\<close> leaves in an object that it
  receives with the staged send depth and, as receive depth, the \<open>max_recv_wr\<close> that the
  kernel returned.  So if \<open>mlx4_set_sq_sizes\<close> leaves the depths alone, the send depth is
  0 for a request of 0 and the receive depth is the kernel's answer.
\<close>

theorem zero_depth_not_rounded:
  "align_queue_size 0 spare = Some 0 \<and>
   (\<not> (max_send_wr (cap attr) > 65536 \<or> max_recv_wr (cap attr) > 65536 \<or>
       max_send_sge (cap attr) > 64 \<or> max_recv_sge (cap attr) > 64 \<or>
       max_inline_data (cap attr) > 1024) \<and> qp_malloc_ret E = Some qp \<longrightarrow>
      (\<exists>r w1 sqm rqm rest. mlx4_create_qp H E pd attr w = Some (r, w1) \<and>
         trace w1 = trace w @ Malloc (Some qp)
                      # AllocQpBuf (cap attr) (qp_type attr) sqm rqm # rest \<and>
         (max_send_wr (cap attr) = 0 \<longrightarrow> sqm = 0) \<and>
         (max_recv_wr (cap attr) = 0 \<longrightarrow> rqm = 0))) \<and>
   (mlx4_create_qp H E pd attr w = Some (Some qp, w') \<longrightarrow>
      (\<exists>q5 q'. qps w' qp = Some q' \<and>
         sq q' = sq (set_sq_sizes E q5 (resp_cap E) (qp_type attr)) \<and>
         rq q' = rq (set_sq_sizes E q5 (resp_cap E) (qp_type attr)) \<and>
         (max_send_wr (cap attr) = 0 \<longrightarrow> wq_max (sq q5) = 0) \<and>
         wq_max (rq q5) = sint (max_recv_wr (resp_cap E)))) \<and>
   (mlx4_create_qp H E pd attr w = Some (Some qp, w') \<and>
    (\<forall>q c t. wq_max (sq (set_sq_sizes E q c t)) = wq_max (sq q) \<and>
             wq_max (rq (set_sq_sizes E q c t)) = wq_max (rq q)) \<longrightarrow>
      (\<exists>q'. qps w' qp = Some q' \<and>
         (max_send_wr (cap attr) = 0 \<longrightarrow> wq_max (sq q') = 0) \<and>
         wq_max (rq q') = sint (max_recv_wr (resp_cap E))))"
proof -
  have first: "align_queue_size 0 spare = Some 0" by (simp add: align_queue_size_def)
  have staged: "\<exists>r w1 sqm rqm rest. mlx4_create_qp H E pd attr w = Some (r, w1) \<and>
         trace w1 = trace w @ Malloc (Some qp)
                      # AllocQpBuf (cap attr) (qp_type attr) sqm rqm # rest \<and>
         (max_send_wr (cap attr) = 0 \<longrightarrow> sqm = 0) \<and>
         (max_recv_wr (cap attr) = 0 \<longrightarrow> rqm = 0)"
    if a: "\<not> (max_send_wr (cap attr) > 65536 \<or> max_recv_wr (cap attr) > 65536 \<or>
       max_send_sge (cap attr) > 64 \<or> max_recv_sge (cap attr) > 64 \<or>
       max_inline_data (cap attr) > 1024) \<and> qp_malloc_ret E = Some qp"
  proof -
    from a have lim: "\<not> (max_send_wr (cap attr) > 65536 \<or> max_recv_wr (cap attr) > 65536 \<or>
       max_send_sge (cap attr) > 64 \<or> max_recv_sge (cap attr) > 64 \<or>
       max_inline_data (cap attr) > 1024)" and m: "qp_malloc_ret E = Some qp" by simp_all
    from create_qp_accepted[OF lim, where E=E and H=H and pd=pd and w=w] m
    obtain sqm rqm r w1 rest where
      s: "align_queue_size (sint (max_send_wr (cap attr))) 0 = Some sqm"
         "align_queue_size (sint (max_recv_wr (cap attr))) 0 = Some rqm"
         "mlx4_create_qp H E pd attr w = Some (r, w1)"
         "trace w1 = trace w @ Malloc (Some qp)
                      # AllocQpBuf (cap attr) (qp_type attr) sqm rqm # rest"
      by auto
    have z: "max_send_wr (cap attr) = 0 \<longrightarrow> sqm = 0" "max_recv_wr (cap attr) = 0 \<longrightarrow> rqm = 0"
      using s(1,2) by (auto simp: align_queue_size_def)
    show ?thesis using s(3,4) z by blast
  qed
  have object: "\<exists>q5 q'. qps w' qp = Some q' \<and>
         sq q' = sq (set_sq_sizes E q5 (resp_cap E) (qp_type attr)) \<and>
         rq q' = rq (set_sq_sizes E q5 (resp_cap E) (qp_type attr)) \<and>
         (max_send_wr (cap attr) = 0 \<longrightarrow> wq_max (sq q5) = 0) \<and>
         wq_max (rq q5) = sint (max_recv_wr (resp_cap E))"
    if ok: "mlx4_create_qp H E pd attr w = Some (Some qp, w')"
  proof -
    have lim: "\<not> (max_send_wr (cap attr) > 65536 \<or> max_recv_wr (cap attr) > 65536 \<or>
       max_send_sge (cap attr) > 64 \<or> max_recv_sge (cap attr) > 64 \<or>
       max_inline_data (cap attr) > 1024)"
    proof
      assume "max_send_wr (cap attr) > 65536 \<or> max_recv_wr (cap attr) > 65536 \<or>
         max_send_sge (cap attr) > 64 \<or> max_recv_sge (cap attr) > 64 \<or>
         max_inline_data (cap attr) > 1024"
      then have "mlx4_create_qp H E pd attr w = Some (None, w)"
        by (simp add: mlx4_create_qp_def)
      with ok show False by simp
    qed
    from create_qp_accepted[OF lim, where E=E and H=H and pd=pd and w=w]
    obtain sqm rqm bb where
      s: "align_queue_size (sint (max_send_wr (cap attr))) 0 = Some sqm"
         "align_queue_size (sint (max_recv_wr (cap attr))) 0 = Some rqm"
         "log_sq_bb_count_loop sqm 0 = Some bb"
      by blast
    have z: "max_send_wr (cap attr) = 0 \<longrightarrow> sqm = 0"
      using s(1) by (auto simp: align_queue_size_def)
    from create_qp_success_object[OF ok s] z show ?thesis by blast
  qed
  have kept: "\<exists>q'. qps w' qp = Some q' \<and>
         (max_send_wr (cap attr) = 0 \<longrightarrow> wq_max (sq q') = 0) \<and>
         wq_max (rq q') = sint (max_recv_wr (resp_cap E))"
    if a: "mlx4_create_qp H E pd attr w = Some (Some qp, w') \<and>
      (\<forall>q c t. wq_max (sq (set_sq_sizes E q c t)) = wq_max (sq q) \<and>
               wq_max (rq (set_sq_sizes E q c t)) = wq_max (rq q))"
  proof -
    from a have ok: "mlx4_create_qp H E pd attr w = Some (Some qp, w')"
      and keep: "\<And>q c t. wq_max (sq (set_sq_sizes E q c t)) = wq_max (sq q)"
                "\<And>q c t. wq_max (rq (set_sq_sizes E q c t)) = wq_max (rq q)"
      by simp_all
    from object[OF ok] obtain q5 q' where
      q: "qps w' qp = Some q'"
         "sq q' = sq (set_sq_sizes E q5 (resp_cap E) (qp_type attr))"
         "rq q' = rq (set_sq_sizes E q5 (resp_cap E) (qp_type attr))"
         "max_send_wr (cap attr) = 0 \<longrightarrow> wq_max (sq q5) = 0"
         "wq_max (rq q5) = sint (max_recv_wr (resp_cap E))"
      by blast
    have "wq_max (sq q') = wq_max (sq q5)" "wq_max (rq q') = wq_max (rq q5)"
      using q(2,3) keep by simp_all
    then show ?thesis using q(1,4,5) by simp
  qed
  show ?thesis using first staged object kept by blast
qed

theorem zero_depth_not_rounded_witness:
  "align_queue_size 0 1 = Some 0 \<and>
   (\<exists>w'. mlx4_create_qp hdr0 qp_env_z pd0 attr_z world0 = Some (Some 1000, w') \<and>
      trace w' = [Malloc (Some 1000), AllocQpBuf (cap0\<lparr>max_send_wr := 0\<rparr>) IBV_QPT_RC 0 65536,
        SpinInit (SqLock 1000), SpinInit (RqLock 1000), AllocDb MLX4_DB_TYPE_RQ,
        CmdCreateQp 24576 82 6 0, StoreQp 0x43 1000] \<and>
      (\<exists>q'. qps w' 1000 = Some q' \<and> wq_max (sq q') = 0 \<and> wq_max (rq q') = 65536))"
proof -
  have s: "sint (65536 :: 32 word) = 65536" by simp
  have e: "\<exists>w'. mlx4_create_qp hdr0 qp_env_z pd0 attr_z world0 = Some (Some 1000, w') \<and>
      trace w' = [Malloc (Some 1000), AllocQpBuf (cap0\<lparr>max_send_wr := 0\<rparr>) IBV_QPT_RC 0 65536,
        SpinInit (SqLock 1000), SpinInit (RqLock 1000), AllocDb MLX4_DB_TYPE_RQ,
        CmdCreateQp 24576 82 6 0, StoreQp 0x43 1000]"
    by (simp add: mlx4_create_qp_def attr_z_def cap0_def qp_env_z_def qp_env0_def s
        align_queue_size_65536 log_sq_bb_count_0 malloc_def mlx4_alloc_qp_buf_def
        mlx4_init_qp_indices_def pthread_spin_init_def mlx4_alloc_db_def mlx4_store_qp_def
        Let_def emit_def world0_def align_queue_size_0)
  then obtain w' where w: "mlx4_create_qp hdr0 qp_env_z pd0 attr_z world0 = Some (Some 1000, w')"
     "trace w' = [Malloc (Some 1000), AllocQpBuf (cap0\<lparr>max_send_wr := 0\<rparr>) IBV_QPT_RC 0 65536,
        SpinInit (SqLock 1000), SpinInit (RqLock 1000), AllocDb MLX4_DB_TYPE_RQ,
        CmdCreateQp 24576 82 6 0, StoreQp 0x43 1000]" by blast
  have h: "\<forall>q c t. wq_max (sq (set_sq_sizes qp_env_z q c t)) = wq_max (sq q) \<and>
             wq_max (rq (set_sq_sizes qp_env_z q c t)) = wq_max (rq q)"
    "max_send_wr (cap attr_z) = 0" "sint (max_recv_wr (resp_cap qp_env_z)) = 65536"
    by (simp_all add: qp_env_z_def qp_env0_def attr_z_def cap0_def)
  from zero_depth_not_rounded[of 1 attr_z qp_env_z 1000 hdr0 pd0 world0 w'] w(1) h
  have "align_queue_size 0 1 = Some 0"
    "\<exists>q'. qps w' 1000 = Some q' \<and> wq_max (sq q') = 0 \<and> wq_max (rq q') = 65536"
    by auto
  then show ?thesis using w by blast
qed

text \<open>
  Claim C10 as stated fails for the receive side: a queue pair is requested with no
  receive work requests, the kernel returns \<open>max_recv_wr = 1\<close>, and the created queue
  pair has receive depth 1.
\<close>

theorem zero_recv_depth_overwritten_counterexample:
  "max_recv_wr (cap attr_r) = 0 \<and>
   map_option (\<lambda>p. (fst p, map_option (\<lambda>q. wq_max (rq q)) (qps (snd p) 1000)))
     (mlx4_create_qp hdr0 qp_env_r pd0 attr_r world0) = Some (Some 1000, Some 1)"
proof -
  have s: "sint (65536 :: 32 word) = 65536" by simp
  show ?thesis
    by (simp add: mlx4_create_qp_def attr_r_def cap0_def qp_env_r_def qp_env0_def s
        align_queue_size_65536 log_sq_bb_count_65536 malloc_def mlx4_alloc_qp_buf_def
        mlx4_init_qp_indices_def pthread_spin_init_def mlx4_alloc_db_def mlx4_store_qp_def
        Let_def emit_def world0_def align_queue_size_0)
qed


section \<open>Address descriptors are built locally\<close>

text \<open>
  Claim C9.  The address vector \<open>mlx4_create_ah\<close> stores depends on the protection
  domain and the attributes only: two calls with the same inputs, in any two states and at
  any two addresses, store the same vector.  The only call made is \<open>malloc\<close>; the Resource
  Table, the queue pairs, the completion queues and the doorbell records are untouched.
  \<open>mlx4_destroy_ah\<close> returns 0 and only releases the object.
\<close>

theorem create_ah_pure:
  "(\<exists>av. ahs (snd (mlx4_create_ah H (Some a1) pd attr w1)) a1 = Some av \<and>
          ahs (snd (mlx4_create_ah H (Some a2) pd attr w2)) a2 = Some av) \<and>
   fst (mlx4_create_ah H m pd attr w) = m \<and>
   trace (snd (mlx4_create_ah H m pd attr w)) = trace w @ [Malloc m] \<and>
   qp_table (snd (mlx4_create_ah H m pd attr w)) = qp_table w \<and>
   qps (snd (mlx4_create_ah H m pd attr w)) = qps w \<and>
   cqs (snd (mlx4_create_ah H m pd attr w)) = cqs w \<and>
   dbrec (snd (mlx4_create_ah H m pd attr w)) = dbrec w \<and>
   fst (mlx4_destroy_ah ah w) = 0 \<and>
   trace (snd (mlx4_destroy_ah ah w)) = trace w @ [Free ah] \<and>
   ahs (snd (mlx4_destroy_ah ah w)) ah = None \<and>
   qp_table (snd (mlx4_destroy_ah ah w)) = qp_table w \<and>
   dbrec (snd (mlx4_destroy_ah ah w)) = dbrec w"
proof -
  have blob: "\<exists>av. ahs (snd (mlx4_create_ah H (Some a1) pd attr w1)) a1 = Some av \<and>
          ahs (snd (mlx4_create_ah H (Some a2) pd attr w2)) a2 = Some av"
    by (simp add: mlx4_create_ah_def malloc_def emit_def Let_def)
  have cr: "fst (mlx4_create_ah H m pd attr w) = m"
    "trace (snd (mlx4_create_ah H m pd attr w)) = trace w @ [Malloc m]"
    "qp_table (snd (mlx4_create_ah H m pd attr w)) = qp_table w"
    "qps (snd (mlx4_create_ah H m pd attr w)) = qps w"
    "cqs (snd (mlx4_create_ah H m pd attr w)) = cqs w"
    "dbrec (snd (mlx4_create_ah H m pd attr w)) = dbrec w"
    by (cases m; simp add: mlx4_create_ah_def malloc_def emit_def Let_def)+
  have de: "fst (mlx4_destroy_ah ah w) = 0"
    "trace (snd (mlx4_destroy_ah ah w)) = trace w @ [Free ah]"
    "ahs (snd (mlx4_destroy_ah ah w)) ah = None"
    "qp_table (snd (mlx4_destroy_ah ah w)) = qp_table w"
    "dbrec (snd (mlx4_destroy_ah ah w)) = dbrec w"
    by (simp_all add: mlx4_destroy_ah_def free_def emit_def)
  show ?thesis using blob cr de by blast
qed

theorem create_ah_pure_witness:
  "ahs (snd (mlx4_create_ah hdr0 (Some 1200) pd0 ah_attr0 world0)) 1200 =
     Some \<lparr>port_pd = 0x03000001, g_slid = 0x81, av_dlid = 0x3412, stat_rate = 7, gid_index = 1,
           av_hop_limit = 64, sl_tclass_flowlabel = 0x45232130,
           av_dgid = 0xfe80000000000000000000000000abcd\<rparr> \<and>
   ahs (snd (mlx4_create_ah hdr0 (Some 1300) pd0 ah_attr0
              (snd (mlx4_destroy_ah 1200 world0)))) 1300 =
     ahs (snd (mlx4_create_ah hdr0 (Some 1200) pd0 ah_attr0 world0)) 1200 \<and>
   trace (snd (mlx4_create_ah hdr0 (Some 1200) pd0 ah_attr0 world0)) = [Malloc (Some 1200)] \<and>
   fst (mlx4_destroy_ah 1200 world0) = 0"
proof -
  have e: "ahs (snd (mlx4_create_ah hdr0 (Some 1200) pd0 ah_attr0 world0)) 1200 =
     Some \<lparr>port_pd = 0x03000001, g_slid = 0x81, av_dlid = 0x3412, stat_rate = 7, gid_index = 1,
           av_hop_limit = 64, sl_tclass_flowlabel = 0x45232130,
           av_dgid = 0xfe80000000000000000000000000abcd\<rparr>"
    by (simp add: mlx4_create_ah_def malloc_def emit_def Let_def hdr0_def pd0_def ah_attr0_def
        htonl_def htons_def bswap32_def bswap16_def)
  from create_ah_pure[of hdr0 1200 pd0 ah_attr0 world0 1300 "snd (mlx4_destroy_ah 1200 world0)"
      "Some 1200" world0 1200]
  show ?thesis using e by (auto simp: world0_def)
qed


end
